theory Spec2Isabelle
  imports Main
begin

section \<open>The calendar and clock arithmetic the scheduler relies on\<close>

text \<open>
  The scheduler computes with Go's \<^verbatim>\<open>time\<close> package. The parts it calls are modelled
  here: the proleptic Gregorian calendar, locations as lists of offset transitions,
  \<^verbatim>\<open>time.Date\<close> with its normalisation and zone lookup, the accessors of a
  \<^verbatim>\<open>time.Time\<close>, and the three textual layouts the scheduler parses.
\<close>

text \<open>
  Instants are nanoseconds since the Unix epoch (UTC), as an unbounded integer: the
  value a Go \<^verbatim>\<open>time.Time\<close> denotes, whatever location it carries.
\<close>

type_synonym instant = int

subsection \<open>Errors\<close>

text \<open>
  The errors the scheduler returns, by kind; the text carried is the offending input.
\<close>

datatype error =
    ErrStore
  | ErrRecordNotFound
  | ErrInvalidData string
  | ErrTimezone string
  | ErrParse string
  | ErrUnknownType string

subsection \<open>Calendar\<close>

definition isLeap :: "int \<Rightarrow> bool" where
  "isLeap y \<longleftrightarrow> y mod 4 = 0 \<and> (y mod 100 \<noteq> 0 \<or> y mod 400 = 0)"

text \<open>Days from 0001-01-01 to the first of January of year \<open>y\<close>.\<close>

definition daysBeforeYear :: "int \<Rightarrow> int" where
  "daysBeforeYear y = 365 * (y - 1) + (y - 1) div 4 - (y - 1) div 100 + (y - 1) div 400"

text \<open>
  Days of the year before the month with index \<open>i\<close> (0 is January, 12 is the end of the
  year): the table \<^verbatim>\<open>daysBefore\<close>, with the leap day added from March on.
\<close>

definition daysBefore :: "bool \<Rightarrow> int \<Rightarrow> int" where
  "daysBefore leap i =
     (if i \<le> 0 then 0
      else if i = 1 then 31
      else (if leap then 1 else 0) +
           (if i = 2 then 59 else if i = 3 then 90 else if i = 4 then 120
            else if i = 5 then 151 else if i = 6 then 181 else if i = 7 then 212
            else if i = 8 then 243 else if i = 9 then 273 else if i = 10 then 304
            else if i = 11 then 334 else 365))"

definition daysIn :: "int \<Rightarrow> int \<Rightarrow> int" where
  "daysIn month year = daysBefore (isLeap year) month - daysBefore (isLeap year) (month - 1)"

text \<open>
  Days from the Unix epoch to the first day of the month with running index
  \<open>k = 12 * year + (month - 1)\<close>. Taking the index modulo 12 is how \<^verbatim>\<open>time.Date\<close>
  carries a month outside 1..12 into the year.
\<close>

definition monthStart :: "int \<Rightarrow> int" where
  "monthStart k =
     daysBeforeYear (k div 12) + daysBefore (isLeap (k div 12)) (k mod 12) - 719162"

text \<open>Days from the Unix epoch to a date; month and day may lie outside their range.\<close>

definition daysSinceEpoch :: "int \<Rightarrow> int \<Rightarrow> int \<Rightarrow> int" where
  "daysSinceEpoch year month day = monthStart (12 * year + (month - 1)) + (day - 1)"

text \<open>The year containing day \<open>a\<close>, counted from 0001-01-01.\<close>

definition yearOfDay :: "int \<Rightarrow> int" where
  "yearOfDay a =
     (let y0 = (400 * a) div 146097 + 1
      in if daysBeforeYear (y0 + 1) \<le> a then y0 + 1
         else if a < daysBeforeYear y0 then y0 - 1
         else y0)"

text \<open>The index (0..11) of the month containing day \<open>yd\<close> (from 0) of a year.\<close>

definition monthOfYday :: "bool \<Rightarrow> int \<Rightarrow> int" where
  "monthOfYday leap yd =
     (if yd < daysBefore leap 1 then 0 else if yd < daysBefore leap 2 then 1
      else if yd < daysBefore leap 3 then 2 else if yd < daysBefore leap 4 then 3
      else if yd < daysBefore leap 5 then 4 else if yd < daysBefore leap 6 then 5
      else if yd < daysBefore leap 7 then 6 else if yd < daysBefore leap 8 then 7
      else if yd < daysBefore leap 9 then 8 else if yd < daysBefore leap 10 then 9
      else if yd < daysBefore leap 11 then 10 else 11)"

text \<open>Year, month and day of the day \<open>n\<close> days after the Unix epoch.\<close>

definition civilFromDays :: "int \<Rightarrow> int \<times> int \<times> int" where
  "civilFromDays n =
     (let a = n + 719162;
          y = yearOfDay a;
          yd = a - daysBeforeYear y;
          i = monthOfYday (isLeap y) yd
      in (y, i + 1, yd - daysBefore (isLeap y) i + 1))"

subsection \<open>Locations\<close>

text \<open>
  A location: the offset (seconds east of UTC) in force before the first transition,
  and the transitions in ascending order, each the Unix second at which it takes effect
  and the offset from then on. A zone with a fixed offset has no transition.
\<close>

record Location =
  zone0 :: int
  tx :: "(int \<times> int) list"

definition UTC :: Location where
  "UTC = \<lparr>zone0 = 0, tx = []\<rparr>"

definition alpha :: int where "alpha = - (2 ^ 63)"
definition omega :: int where "omega = 2 ^ 63 - 1"

text \<open>\<^verbatim>\<open>Location.lookup\<close>: the offset in force at a Unix second and the bounds of its validity.\<close>

fun lookup_tx :: "int \<Rightarrow> int \<Rightarrow> (int \<times> int) list \<Rightarrow> int \<Rightarrow> int \<times> int \<times> int" where
  "lookup_tx off start [] sec = (off, start, omega)"
| "lookup_tx off start ((when, off') # rest) sec =
     (if sec < when then (off, start, when) else lookup_tx off' when rest sec)"

definition lookup :: "Location \<Rightarrow> int \<Rightarrow> int \<times> int \<times> int" where
  "lookup l sec = lookup_tx (zone0 l) alpha (tx l) sec"

text \<open>
  The time zone database is a parameter: the locations that load by name.
  \<^verbatim>\<open>time.LoadLocation\<close> answers the names \<^verbatim>\<open>""\<close> and \<^verbatim>\<open>"UTC"\<close> itself.
\<close>

type_synonym tzdb = "string \<Rightarrow> Location option"

definition LoadLocation :: "tzdb \<Rightarrow> string \<Rightarrow> Location option" where
  "LoadLocation db name = (if name = [] \<or> name = ''UTC'' then Some UTC else db name)"

subsection \<open>Time values\<close>

text \<open>A \<^verbatim>\<open>time.Time\<close>: an instant and the location it is displayed in.\<close>

record Time =
  unixNano :: instant
  location :: Location

definition unixSec :: "Time \<Rightarrow> int" where
  "unixSec t = unixNano t div 1000000000"

text \<open>Seconds since the epoch on the wall clock of the time's location.\<close>

definition localSec :: "Time \<Rightarrow> int" where
  "localSec t = unixSec t + fst (lookup (location t) (unixSec t))"

definition In :: "Time \<Rightarrow> Location \<Rightarrow> Time" where
  "In t l = t\<lparr>location := l\<rparr>"

definition toUTC :: "Time \<Rightarrow> Time" where
  "toUTC t = t\<lparr>location := UTC\<rparr>"

definition Before :: "Time \<Rightarrow> Time \<Rightarrow> bool" where
  "Before t u \<longleftrightarrow> unixNano t < unixNano u"

definition Add :: "Time \<Rightarrow> int \<Rightarrow> Time" where
  "Add t d = t\<lparr>unixNano := unixNano t + d\<rparr>"

definition Hour :: int where "Hour = 3600000000000"

text \<open>\<^verbatim>\<open>Time.Sub\<close>: the difference in nanoseconds, saturated to a 64-bit duration.\<close>

definition Sub :: "Time \<Rightarrow> Time \<Rightarrow> int" where
  "Sub t u =
     (let d = unixNano t - unixNano u
      in if d < alpha then alpha else if omega < d then omega else d)"

definition DateOf :: "Time \<Rightarrow> int \<times> int \<times> int" where
  "DateOf t = civilFromDays (localSec t div 86400)"

definition Day :: "Time \<Rightarrow> int" where
  "Day t = snd (snd (DateOf t))"

text \<open>Sunday is 0; the epoch was a Thursday.\<close>

definition Weekday :: "Time \<Rightarrow> int" where
  "Weekday t = (localSec t div 86400 + 4) mod 7"

definition HourOf :: "Time \<Rightarrow> int" where
  "HourOf t = (localSec t mod 86400) div 3600"

definition Minute :: "Time \<Rightarrow> int" where
  "Minute t = (localSec t mod 3600) div 60"

definition Second :: "Time \<Rightarrow> int" where
  "Second t = localSec t mod 60"

definition Nanosecond :: "Time \<Rightarrow> int" where
  "Nanosecond t = unixNano t mod 1000000000"

text \<open>
  \<^verbatim>\<open>time.Date\<close>. Month, day and clock fields outside their range carry over, which on
  unbounded integers is the linear expression below. The wall-clock second is then
  turned into a Unix second with the offset the location has there: first the offset
  found at the wall-clock value itself, and if the result falls outside that offset's
  validity, the offset found at the result.
\<close>

definition Date ::
  "int \<Rightarrow> int \<Rightarrow> int \<Rightarrow> int \<Rightarrow> int \<Rightarrow> int \<Rightarrow> int \<Rightarrow> Location \<Rightarrow> Time" where
  "Date year month day hour minute sec nsec l =
     (let unix = daysSinceEpoch year month day * 86400 + hour * 3600 + minute * 60 + sec
                   + nsec div 1000000000;
          (offset, start, end) = lookup l unix;
          unix' = (if offset \<noteq> 0
                   then (let utc = unix - offset
                         in if utc < start \<or> end \<le> utc
                            then unix - fst (lookup l utc) else unix - offset)
                   else unix)
      in \<lparr>unixNano = unix' * 1000000000 + nsec mod 1000000000, location = l\<rparr>)"

definition AddDate :: "Time \<Rightarrow> int \<Rightarrow> int \<Rightarrow> int \<Rightarrow> Time" where
  "AddDate t years months days =
     (let (year, month, day) = DateOf t
      in Date (year + years) (month + months) (day + days)
              (HourOf t) (Minute t) (Second t) (Nanosecond t) (location t))"

subsection \<open>Parsing\<close>

definition digitVal :: "char \<Rightarrow> int option" where
  "digitVal c =
     (let n = (of_char c :: nat) in if 48 \<le> n \<and> n \<le> 57 then Some (int n - 48) else None)"

text \<open>Exactly two decimal digits.\<close>

definition num2 :: "char \<Rightarrow> char \<Rightarrow> int option" where
  "num2 a b =
     (case digitVal a of None \<Rightarrow> None
      | Some x \<Rightarrow> (case digitVal b of None \<Rightarrow> None | Some y \<Rightarrow> Some (10 * x + y)))"

text \<open>
  The clock part of the layout \<^verbatim>\<open>"2006-01-02 15:04"\<close>, read after the date: the blank
  of the layout matches a run of blanks, the hour is one or two digits below 24, then a
  colon and exactly two digits below 60, and nothing may follow.
\<close>

definition parseClock :: "string \<Rightarrow> (int \<times> int) option" where
  "parseClock s =
     (case dropWhile (\<lambda>c. c = CHR '' '') s of
        [] \<Rightarrow> None
      | h1 # rest \<Rightarrow>
          (case digitVal h1 of
             None \<Rightarrow> None
           | Some a \<Rightarrow>
               (let (hour, rest') =
                      (case rest of
                         [] \<Rightarrow> (a, rest)
                       | h2 # r2 \<Rightarrow> (case digitVal h2 of
                                       None \<Rightarrow> (a, rest)
                                     | Some b \<Rightarrow> (10 * a + b, r2)))
                in if 24 \<le> hour then None
                   else (case rest' of
                           [c, m1, m2] \<Rightarrow>
                             (if c = CHR '':'' then
                                (case num2 m1 m2 of
                                   None \<Rightarrow> None
                                 | Some m \<Rightarrow> if 60 \<le> m then None else Some (hour, m))
                              else None)
                         | _ \<Rightarrow> None))))"

text \<open>
  A date in the layout \<^verbatim>\<open>"2006-01-02"\<close>: four digits, two digits, two digits, with the
  month and the day in range.
\<close>

definition parseDate :: "string \<Rightarrow> (int \<times> int \<times> int) option" where
  "parseDate s =
     (case s of
        [y1, y2, y3, y4, d1, m1, m2, d2, a1, a2] \<Rightarrow>
          (case (num2 y1 y2, num2 y3 y4, num2 m1 m2, num2 a1 a2) of
             (Some yh, Some yl, Some month, Some day) \<Rightarrow>
               (let year = 100 * yh + yl
                in if d1 = CHR ''-'' \<and> d2 = CHR ''-'' \<and> 1 \<le> month \<and> month \<le> 12
                      \<and> 1 \<le> day \<and> day \<le> daysIn month year
                   then Some (year, month, day) else None)
           | _ \<Rightarrow> None)
      | _ \<Rightarrow> None)"

text \<open>
  \<^verbatim>\<open>time.ParseInLocation("2006-01-02 15:04", date + " " + timeStr, loc)\<close> where the date
  text was produced from a year, a month and a day with four, two and two digits
  (\<^verbatim>\<open>Format("2006-01-02")\<close>, or \<^verbatim>\<open>Sprintf("%04d-%02d-%02d")\<close>). The text reads back
  field by field, so the parse succeeds exactly when the year has four digits, month
  and day are in range and the clock text parses.
\<close>

definition ParseInLocation_date_clock ::
  "int \<times> int \<times> int \<Rightarrow> string \<Rightarrow> Location \<Rightarrow> error + Time" where
  "ParseInLocation_date_clock ymd timeStr l =
     (let (year, month, day) = ymd
      in if 0 \<le> year \<and> year \<le> 9999 \<and> 1 \<le> month \<and> month \<le> 12
            \<and> 1 \<le> day \<and> day \<le> daysIn month year
         then (case parseClock timeStr of
                 None \<Rightarrow> Inl (ErrParse timeStr)
               | Some (hour, minute) \<Rightarrow> Inr (Date year month day hour minute 0 0 l))
         else Inl (ErrParse timeStr))"

text \<open>\<^verbatim>\<open>time.ParseInLocation("2006-01-02", startDate, loc)\<close>.\<close>

definition ParseInLocation_date :: "string \<Rightarrow> Location \<Rightarrow> error + Time" where
  "ParseInLocation_date startDate l =
     (case parseDate startDate of
        None \<Rightarrow> Inl (ErrParse startDate)
      | Some (year, month, day) \<Rightarrow> Inr (Date year month day 0 0 0 0 l))"

text \<open>
  \<^verbatim>\<open>Format("2006-01-02")\<close> followed by a parse needs only the date of the time; the text
  has four year digits for the years 0 to 9999 (other years make the parse fail, which
  \<open>ParseInLocation_date_clock\<close> reports).
\<close>

definition Format_date :: "Time \<Rightarrow> int \<times> int \<times> int" where
  "Format_date t = DateOf t"

text \<open>The number written by a run of decimal digits.\<close>

fun digitsNum :: "string \<Rightarrow> int \<Rightarrow> int" where
  "digitsNum [] acc = acc"
| "digitsNum (c # cs) acc =
     digitsNum cs (10 * acc + (case digitVal c of None \<Rightarrow> 0 | Some d \<Rightarrow> d))"

text \<open>
  The optional fraction of a second and what follows it: a point or a comma and at
  least one digit; the digits after the ninth are dropped.
\<close>

definition splitFraction :: "string \<Rightarrow> int \<times> string" where
  "splitFraction s =
     (case s of
        p # d # cs \<Rightarrow>
          (if (p = CHR ''.'' \<or> p = CHR '','') \<and> digitVal d \<noteq> None then
             (let ds = takeWhile (\<lambda>c. digitVal c \<noteq> None) (d # cs);
                  ds9 = take 9 ds
              in (digitsNum ds9 0 * 10 ^ (9 - length ds9),
                  dropWhile (\<lambda>c. digitVal c \<noteq> None) (d # cs)))
           else (0, s))
      | _ \<Rightarrow> (0, s))"

text \<open>
  The zone of an RFC 3339 text in seconds east of UTC: \<^verbatim>\<open>Z\<close>, or a signed \<^verbatim>\<open>hh:mm\<close>.
  As in Go, the hour may be up to 24 and the minute up to 60.
\<close>

definition zoneOffset :: "string \<Rightarrow> int option" where
  "zoneOffset z =
     (if z = ''Z'' then Some 0
      else (case z of
              [sg, h1, h2, c, m1, m2] \<Rightarrow>
                (case (num2 h1 h2, num2 m1 m2) of
                   (Some hr, Some mm) \<Rightarrow>
                     (if (sg = CHR ''+'' \<or> sg = CHR ''-'') \<and> c = CHR '':'' \<and> hr \<le> 24 \<and> mm \<le> 60
                      then Some ((if sg = CHR ''-'' then - 1 else 1) * ((hr * 60 + mm) * 60))
                      else None)
                 | _ \<Rightarrow> None)
            | _ \<Rightarrow> None))"

text \<open>
  \<^verbatim>\<open>getnum\<close> of the time package: a number of one or two digits at the head of the
  text, exactly two when \<open>fixed\<close>, and the rest of the text.
\<close>

definition getnum :: "bool \<Rightarrow> string \<Rightarrow> (int \<times> string) option" where
  "getnum fixed s =
     (case s of
        [] \<Rightarrow> None
      | c # r \<Rightarrow>
          (case digitVal c of
             None \<Rightarrow> None
           | Some a \<Rightarrow>
               (case r of
                  [] \<Rightarrow> if fixed then None else Some (a, r)
                | c2 # r2 \<Rightarrow>
                    (case digitVal c2 of
                       None \<Rightarrow> if fixed then None else Some (a, r)
                     | Some b \<Rightarrow> Some (10 * a + b, r2)))))"

text \<open>A literal character of the layout.\<close>

definition expect :: "char \<Rightarrow> string \<Rightarrow> string option" where
  "expect c s = (case s of [] \<Rightarrow> None | c' # r \<Rightarrow> if c' = c then Some r else None)"

text \<open>
  The fields of a text in the layout \<^verbatim>\<open>time.RFC3339\<close>, as \<^verbatim>\<open>time.Parse\<close> reads them:
  a year of four digits, month and day of two, \<^verbatim>\<open>T\<close>, an hour of one or two digits,
  minute and second of two, an optional fraction, and the zone, after which nothing may
  follow. The result is the date, the clock with the nanoseconds, the text of the zone
  and its offset. A text without a zone has no fields.
\<close>

definition parseRFC3339_fields ::
  "string \<Rightarrow> ((int \<times> int \<times> int) \<times> (int \<times> int \<times> int \<times> int) \<times> string \<times> int) option" where
  "parseRFC3339_fields s =
     (case s of
        y1 # y2 # y3 # y4 # r0 \<Rightarrow>
          (case (num2 y1 y2, num2 y3 y4) of
             (Some yh, Some yl) \<Rightarrow>
               Option.bind (expect (CHR ''-'') r0) (\<lambda>r1.
               Option.bind (getnum True r1) (\<lambda>(month, r2).
               Option.bind (expect (CHR ''-'') r2) (\<lambda>r3.
               Option.bind (getnum True r3) (\<lambda>(day, r4).
               Option.bind (expect (CHR ''T'') r4) (\<lambda>r5.
               Option.bind (getnum False r5) (\<lambda>(hour, r6).
               Option.bind (expect (CHR '':'') r6) (\<lambda>r7.
               Option.bind (getnum True r7) (\<lambda>(minute, r8).
               Option.bind (expect (CHR '':'') r8) (\<lambda>r9.
               Option.bind (getnum True r9) (\<lambda>(sec, r10).
                 (let year = 100 * yh + yl;
                      (nsec, zone) = splitFraction r10
                  in case zoneOffset zone of
                       None \<Rightarrow> None
                     | Some off \<Rightarrow>
                         if 1 \<le> month \<and> month \<le> 12 \<and> 1 \<le> day \<and> day \<le> daysIn month year
                            \<and> hour < 24 \<and> minute < 60 \<and> sec < 60
                         then Some ((year, month, day), (hour, minute, sec, nsec), zone, off)
                         else None)))))))))))
           | _ \<Rightarrow> None)
      | _ \<Rightarrow> None)"

text \<open>
  \<^verbatim>\<open>time.Parse(time.RFC3339, s)\<close>: the wall clock of the text, taken at the offset the
  text itself carries.
\<close>

definition parseRFC3339 :: "string \<Rightarrow> Time option" where
  "parseRFC3339 s =
     (case parseRFC3339_fields s of
        None \<Rightarrow> None
      | Some ((year, month, day), (hour, minute, sec, nsec), zone, off) \<Rightarrow>
          Some \<lparr>unixNano = unixNano (Date year month day hour minute sec nsec UTC)
                            - off * 1000000000,
                location = \<lparr>zone0 = off, tx = []\<rparr>\<rparr>)"

text \<open>
  \<^verbatim>\<open>fmt.Sscanf(timeStr, "%d:%d", &hour, &minute)\<close> as \<open>parseTimeToMinutes\<close> uses it: a
  number is an optional sign and a run of digits after leading blanks; a field that
  does not scan keeps the value 0 and ends the scan.
\<close>

definition scanInt :: "string \<Rightarrow> (int \<times> string) option" where
  "scanInt s =
     (let s1 = dropWhile (\<lambda>c. c = CHR '' '') s;
          (neg, s2) = (case s1 of
                         [] \<Rightarrow> (False, s1)
                       | c # r \<Rightarrow> if c = CHR ''-'' then (True, r)
                                  else if c = CHR ''+'' then (False, r) else (False, s1));
          ds = takeWhile (\<lambda>c. digitVal c \<noteq> None) s2
      in if ds = [] then None
         else Some ((if neg then - digitsNum ds 0 else digitsNum ds 0),
                    dropWhile (\<lambda>c. digitVal c \<noteq> None) s2))"

definition parseTimeToMinutes :: "string \<Rightarrow> int" where
  "parseTimeToMinutes timeStr =
     (case scanInt timeStr of
        None \<Rightarrow> 0
      | Some (hour, r) \<Rightarrow>
          (case r of
             [] \<Rightarrow> hour * 60
           | c # r' \<Rightarrow>
               (if c = CHR '':'' then
                  (case scanInt r' of
                     None \<Rightarrow> hour * 60
                   | Some (minute, r'') \<Rightarrow> hour * 60 + minute)
                else hour * 60)))"

section \<open>Data model of the scheduler\<close>

text \<open>
  A decoded JSON value of \<^verbatim>\<open>schedule_data\<close>. \<open>JNumber n\<close> stands for a JSON number
  whose \<^verbatim>\<open>float64\<close> value is converted by \<^verbatim>\<open>int(...)\<close> to \<open>n\<close>. A JSON object is
  the list of its members, each key once.
\<close>

datatype jvalue = JString string | JNumber int | JBool bool | JNull

type_synonym jobject = "(string \<times> jvalue) list"

text \<open>
  \<^verbatim>\<open>models.Schedule\<close>. The column \<^verbatim>\<open>schedule_data\<close> is kept as the JSON object that
  \<^verbatim>\<open>json.Unmarshal\<close> decodes it to (text that does not decode behaves as the empty
  object in \<^verbatim>\<open>UpdateScheduleNextRun\<close>). The bookkeeping columns \<^verbatim>\<open>created_at\<close> and
  \<^verbatim>\<open>updated_at\<close>, maintained by the ORM, are left out.
\<close>

record Schedule =
  ID :: nat
  UserID :: string
  Name :: string
  ScheduleType :: string
  ScheduleData :: jobject
  IsActive :: bool
  LastRunAt :: "instant option"
  NextRunAt :: "instant option"
  CollectionID :: "nat option"
  SearchID :: "nat option"

text \<open>\<^verbatim>\<open>models.ScheduleRun\<close>.\<close>

record ScheduleRun =
  RunID :: nat
  ScheduleID :: nat
  Status :: string
  StartedAt :: instant
  CompletedAt :: "instant option"
  ErrorMsg :: "string option"

text \<open>
  The world the scheduler service acts on: the two tables it owns, the identifiers of the
  collections and searches a schedule may refer to, the wall clock and the behaviour of
  the store. \<open>clock w k\<close> is what the \<open>k\<close>-th call of \<^verbatim>\<open>GetCurrentUTC\<close> returns and
  \<open>fails w k\<close> says whether the \<open>k\<close>-th statement sent to the store comes back with an
  error; \<open>reads\<close> and \<open>stmts\<close> count the calls made so far.
\<close>

record World =
  schedules :: "Schedule list"
  schedule_runs :: "ScheduleRun list"
  collections :: "nat list"
  searches :: "nat list"
  clock :: "nat \<Rightarrow> instant"
  reads :: nat
  fails :: "nat \<Rightarrow> bool"
  stmts :: nat

definition GetCurrentUTC :: "World \<Rightarrow> instant \<times> World" where
  "GetCurrentUTC w = (clock w (reads w), w\<lparr>reads := Suc (reads w)\<rparr>)"

text \<open>One statement sent to the store: whether it errors, and the world afterwards.\<close>

definition db_exec :: "World \<Rightarrow> bool \<times> World" where
  "db_exec w = (fails w (stmts w), w\<lparr>stmts := Suc (stmts w)\<rparr>)"

section \<open>Schedule store operations\<close>

text \<open>
  \<^verbatim>\<open>DeleteSchedule\<close>: one \<^verbatim>\<open>UPDATE schedules SET is_active = false WHERE id = ? AND
  user_id = ?\<close>. A statement that matches no row is not an error.
\<close>

definition DeleteSchedule :: "World \<Rightarrow> nat \<Rightarrow> string \<Rightarrow> error option \<times> World" where
  "DeleteSchedule w scheduleID userID =
     (let (failed, w1) = db_exec w
      in if failed then (Some ErrStore, w1)
         else (None, w1\<lparr>schedules :=
                 map (\<lambda>s. if ID s = scheduleID \<and> UserID s = userID
                           then s\<lparr>IsActive := False\<rparr> else s) (schedules w1)\<rparr>))"

text \<open>
  \<^verbatim>\<open>RecordScheduleRun\<close>: builds a new run stamped with the current instant and inserts
  it (\<^verbatim>\<open>db.Create\<close>); the primary key is assigned by the store.
\<close>

definition RecordScheduleRun ::
  "World \<Rightarrow> nat \<Rightarrow> string \<Rightarrow> string option \<Rightarrow> error option \<times> World" where
  "RecordScheduleRun w scheduleID status errorMsg =
     (let (nowUTC, w1) = GetCurrentUTC w;
          run = \<lparr>RunID = Suc (length (schedule_runs w1)), ScheduleID = scheduleID,
                 Status = status, StartedAt = nowUTC,
                 CompletedAt = (if status = ''completed'' \<or> status = ''failed''
                                then Some nowUTC else None),
                 ErrorMsg = errorMsg\<rparr>;
          (failed, w2) = db_exec w1
      in if failed then (Some ErrStore, w2)
         else (None, w2\<lparr>schedule_runs := schedule_runs w2 @ [run]\<rparr>))"

section \<open>Recurrence calculator\<close>

text \<open>\<^verbatim>\<open>TimezoneService.ConvertToUTC\<close>: the same instant, displayed in UTC.\<close>

definition ConvertToUTC :: "tzdb \<Rightarrow> Time \<Rightarrow> string \<Rightarrow> error + Time" where
  "ConvertToUTC db userTime userTimezone =
     (let tz = (if userTimezone = [] then ''UTC'' else userTimezone)
      in case LoadLocation db tz of
           None \<Rightarrow> Inl (ErrTimezone tz)
         | Some l \<Rightarrow> Inr (toUTC (In userTime l)))"

text \<open>\<^verbatim>\<open>TimezoneService.ConvertFromUTC\<close>: the same instant, displayed in the user's zone.\<close>

definition ConvertFromUTC :: "tzdb \<Rightarrow> Time \<Rightarrow> string \<Rightarrow> error + Time" where
  "ConvertFromUTC db utcTime userTimezone =
     (let tz = (if userTimezone = [] then ''UTC'' else userTimezone)
      in case LoadLocation db tz of
           None \<Rightarrow> Inl (ErrTimezone tz)
         | Some l \<Rightarrow> Inr (In utcTime l))"

text \<open>\<^verbatim>\<open>TimezoneService.ParseScheduleTime\<close>.\<close>

definition ParseScheduleTime :: "tzdb \<Rightarrow> jobject \<Rightarrow> string \<Rightarrow> error + Time" where
  "ParseScheduleTime db scheduleData userTimezone =
     (case map_of scheduleData ''date_time'' of
        Some (JString dateTimeStr) \<Rightarrow>
          (case parseRFC3339 dateTimeStr of
             None \<Rightarrow> Inl (ErrParse dateTimeStr)
           | Some parsedTime \<Rightarrow>
               if last dateTimeStr = CHR ''Z'' then Inr (toUTC parsedTime)
               else ConvertToUTC db parsedTime userTimezone)
      | _ \<Rightarrow> Inl (ErrInvalidData ''date_time''))"

definition calculateDailyNextRun :: "tzdb \<Rightarrow> string \<Rightarrow> string \<Rightarrow> Time \<Rightarrow> error + Time" where
  "calculateDailyNextRun db timeStr userTimezone nowUTC =
     (case ConvertFromUTC db nowUTC userTimezone of
        Inl e \<Rightarrow> Inl e
      | Inr userNow \<Rightarrow>
          (let today = Format_date userNow
           in case LoadLocation db userTimezone of
                None \<Rightarrow> Inl (ErrTimezone userTimezone)
              | Some l \<Rightarrow>
                  (case ParseInLocation_date_clock today timeStr l of
                     Inl e \<Rightarrow> Inl e
                   | Inr targetTimeUser \<Rightarrow>
                       ConvertToUTC db
                         (if Before targetTimeUser userNow
                          then Add targetTimeUser (24 * Hour) else targetTimeUser)
                         userTimezone)))"

text \<open>Go's \<^verbatim>\<open>%\<close> on integers truncates towards zero.\<close>

definition go_rem :: "int \<Rightarrow> int \<Rightarrow> int" where
  "go_rem a b = (if 0 \<le> a then a mod b else - ((- a) mod b))"

definition calculateWeeklyNextRun ::
  "tzdb \<Rightarrow> int \<Rightarrow> string \<Rightarrow> string \<Rightarrow> Time \<Rightarrow> error + Time" where
  "calculateWeeklyNextRun db dayOfWeek timeStr userTimezone nowUTC =
     (case ConvertFromUTC db nowUTC userTimezone of
        Inl e \<Rightarrow> Inl e
      | Inr userNow \<Rightarrow>
          (case LoadLocation db userTimezone of
             None \<Rightarrow> Inl (ErrTimezone userTimezone)
           | Some l \<Rightarrow>
               (let currentWeekday = Weekday userNow;
                    daysUntilTarget0 = go_rem (dayOfWeek - currentWeekday + 7) 7;
                    daysUntilTarget =
                      (if daysUntilTarget0 = 0
                          \<and> parseTimeToMinutes timeStr \<le> HourOf userNow * 60 + Minute userNow
                       then 7 else daysUntilTarget0);
                    targetDate = AddDate userNow 0 0 daysUntilTarget
                in case ParseInLocation_date_clock (Format_date targetDate) timeStr l of
                     Inl e \<Rightarrow> Inl e
                   | Inr targetTimeUser \<Rightarrow> ConvertToUTC db targetTimeUser userTimezone)))"

text \<open>
  \<^verbatim>\<open>int(userNow.Sub(start).Hours() / (24 * 7 * 2))\<close>: the elapsed time in units of 336
  hours, truncated towards zero. The source divides in \<^verbatim>\<open>float64\<close>; the quotient is
  taken exactly here, which is the same number unless the elapsed time lies within
  microseconds of a whole multiple of 336 hours.
\<close>

definition weeksSince :: "int \<Rightarrow> int" where
  "weeksSince d = (if 0 \<le> d then d div (336 * Hour) else - ((- d) div (336 * Hour)))"

definition calculateBiweeklyNextRun ::
  "tzdb \<Rightarrow> int \<Rightarrow> string \<Rightarrow> string \<Rightarrow> string \<Rightarrow> Time \<Rightarrow> error + Time" where
  "calculateBiweeklyNextRun db dayOfWeek timeStr userTimezone startDate nowUTC =
     (case ConvertFromUTC db nowUTC userTimezone of
        Inl e \<Rightarrow> Inl e
      | Inr userNow \<Rightarrow>
          (case LoadLocation db userTimezone of
             None \<Rightarrow> Inl (ErrTimezone userTimezone)
           | Some l \<Rightarrow>
               (case ParseInLocation_date startDate l of
                  Inl e \<Rightarrow> Inl e
                | Inr start \<Rightarrow>
                    (let weeksSinceStart = weeksSince (Sub userNow start);
                         nextStart = AddDate start 0 0 (weeksSinceStart * 14);
                         nextTarget0 = AddDate nextStart 0 0 (dayOfWeek - Weekday nextStart);
                         nextTarget = (if Before nextTarget0 userNow
                                       then AddDate nextTarget0 0 0 14 else nextTarget0)
                     in case ParseInLocation_date_clock (Format_date nextTarget) timeStr l of
                          Inl e \<Rightarrow> Inl e
                        | Inr targetTimeUser \<Rightarrow>
                            ConvertToUTC db targetTimeUser userTimezone))))"

definition calculateMonthlyNextRun ::
  "tzdb \<Rightarrow> int \<Rightarrow> string \<Rightarrow> string \<Rightarrow> Time \<Rightarrow> error + Time" where
  "calculateMonthlyNextRun db dayOfMonth timeStr userTimezone nowUTC =
     (case ConvertFromUTC db nowUTC userTimezone of
        Inl e \<Rightarrow> Inl e
      | Inr userNow \<Rightarrow>
          (case LoadLocation db userTimezone of
             None \<Rightarrow> Inl (ErrTimezone userTimezone)
           | Some l \<Rightarrow>
               (let nextMonth = AddDate userNow 0 1 0;
                    (year, month, _) = DateOf nextMonth;
                    targetDay =
                      (if 28 < dayOfMonth then
                         (let daysInMonth = Day (Date year (month + 1) 0 0 0 0 0 l)
                          in if daysInMonth < dayOfMonth then daysInMonth else dayOfMonth)
                       else dayOfMonth)
                in case ParseInLocation_date_clock (year, month, targetDay) timeStr l of
                     Inl e \<Rightarrow> Inl e
                   | Inr targetTimeUser \<Rightarrow> ConvertToUTC db targetTimeUser userTimezone)))"

text \<open>
  \<^verbatim>\<open>calculateNextRunTime\<close>, given the instant its call of \<^verbatim>\<open>GetCurrentUTC\<close> returns.
  \<open>scheduleData\<close> is \<open>None\<close> for a value that is not a \<^verbatim>\<open>map[string]interface{}\<close>.
\<close>

definition calculateNextRunTime_at ::
  "tzdb \<Rightarrow> instant \<Rightarrow> string \<Rightarrow> jobject option \<Rightarrow> string \<Rightarrow> error + Time" where
  "calculateNextRunTime_at db nowNano scheduleType scheduleData userTimezone =
     (let now = \<lparr>unixNano = nowNano, location = UTC\<rparr>
      in if scheduleType = ''once'' then
           (case scheduleData of
              None \<Rightarrow> Inl (ErrInvalidData ''once'')
            | Some dataMap \<Rightarrow> ParseScheduleTime db dataMap userTimezone)
         else if scheduleType = ''daily'' then
           (case scheduleData of
              None \<Rightarrow> Inl (ErrInvalidData ''daily'')
            | Some dataMap \<Rightarrow>
                (case map_of dataMap ''time'' of
                   Some (JString timeStr) \<Rightarrow> calculateDailyNextRun db timeStr userTimezone now
                 | _ \<Rightarrow> Inl (ErrInvalidData ''time'')))
         else if scheduleType = ''weekly'' then
           (case scheduleData of
              None \<Rightarrow> Inl (ErrInvalidData ''weekly'')
            | Some dataMap \<Rightarrow>
                (case map_of dataMap ''day_of_week'' of
                   Some (JNumber dayOfWeek) \<Rightarrow>
                     (case map_of dataMap ''time'' of
                        Some (JString timeStr) \<Rightarrow>
                          calculateWeeklyNextRun db dayOfWeek timeStr userTimezone now
                      | _ \<Rightarrow> Inl (ErrInvalidData ''time''))
                 | _ \<Rightarrow> Inl (ErrInvalidData ''day_of_week'')))
         else if scheduleType = ''biweekly'' then
           (case scheduleData of
              None \<Rightarrow> Inl (ErrInvalidData ''biweekly'')
            | Some dataMap \<Rightarrow>
                (case map_of dataMap ''day_of_week'' of
                   Some (JNumber dayOfWeek) \<Rightarrow>
                     (case map_of dataMap ''time'' of
                        Some (JString timeStr) \<Rightarrow>
                          (case map_of dataMap ''start_date'' of
                             Some (JString startDate) \<Rightarrow>
                               calculateBiweeklyNextRun db dayOfWeek timeStr userTimezone
                                 startDate now
                           | _ \<Rightarrow> Inl (ErrInvalidData ''start_date''))
                      | _ \<Rightarrow> Inl (ErrInvalidData ''time''))
                 | _ \<Rightarrow> Inl (ErrInvalidData ''day_of_week'')))
         else if scheduleType = ''monthly'' then
           (case scheduleData of
              None \<Rightarrow> Inl (ErrInvalidData ''monthly'')
            | Some dataMap \<Rightarrow>
                (case map_of dataMap ''day_of_month'' of
                   Some (JNumber dayOfMonth) \<Rightarrow>
                     (case map_of dataMap ''time'' of
                        Some (JString timeStr) \<Rightarrow>
                          calculateMonthlyNextRun db dayOfMonth timeStr userTimezone now
                      | _ \<Rightarrow> Inl (ErrInvalidData ''time''))
                 | _ \<Rightarrow> Inl (ErrInvalidData ''day_of_month'')))
         else Inl (ErrUnknownType scheduleType))"

text \<open>\<^verbatim>\<open>calculateNextRunTime\<close>: reads the clock, then computes.\<close>

definition calculateNextRunTime ::
  "tzdb \<Rightarrow> World \<Rightarrow> string \<Rightarrow> jobject option \<Rightarrow> string \<Rightarrow> (error + Time) \<times> World" where
  "calculateNextRunTime db w scheduleType scheduleData userTimezone =
     (let (now, w1) = GetCurrentUTC w
      in (calculateNextRunTime_at db now scheduleType scheduleData userTimezone, w1))"

section \<open>Advancing, polling and running schedules\<close>

text \<open>
  \<^verbatim>\<open>CreateSchedule\<close>. The first next run is computed with the zone passed by the
  caller (the zone of the user's profile), not with the zone written in the schedule
  data. The store assigns the primary key. \<open>scheduleData\<close> is stored as the JSON object
  it marshals to.
\<close>

definition CreateSchedule ::
  "tzdb \<Rightarrow> World \<Rightarrow> string \<Rightarrow> string \<Rightarrow> string \<Rightarrow> jobject option \<Rightarrow> nat option \<Rightarrow> nat option
     \<Rightarrow> string \<Rightarrow> (error + Schedule) \<times> World" where
  "CreateSchedule db w userID name scheduleType scheduleData collectionID searchID userTimezone =
     (let (res, w1) = calculateNextRunTime db w scheduleType scheduleData userTimezone
      in case res of
           Inl e \<Rightarrow> (Inl e, w1)
         | Inr nextRunAt \<Rightarrow>
             (let (failed, w2) = db_exec w1;
                  schedule = \<lparr>ID = Suc (fold max (map ID (schedules w2)) 0),
                     UserID = userID, Name = name, ScheduleType = scheduleType,
                     ScheduleData = (case scheduleData of None \<Rightarrow> [] | Some obj \<Rightarrow> obj),
                     IsActive = True, LastRunAt = None,
                     NextRunAt = Some (unixNano nextRunAt),
                     CollectionID = collectionID, SearchID = searchID\<rparr>
              in if failed then (Inl ErrStore, w2)
                 else (Inr schedule, w2\<lparr>schedules := schedules w2 @ [schedule]\<rparr>)))"

text \<open>
  \<^verbatim>\<open>db.Save\<close> of a row that carries its primary key: the row with that key is
  replaced, and a row is inserted when there is none.
\<close>

definition save :: "Schedule \<Rightarrow> Schedule list \<Rightarrow> Schedule list" where
  "save s rows =
     (if \<exists>r \<in> set rows. ID r = ID s
      then map (\<lambda>r. if ID r = ID s then s else r) rows
      else rows @ [s])"

text \<open>
  The zone \<^verbatim>\<open>UpdateScheduleNextRun\<close> takes from the stored schedule data: the member
  \<^verbatim>\<open>timezone\<close> when it is a non-empty string, and \<^verbatim>\<open>UTC\<close> otherwise.
\<close>

definition scheduleTimezone :: "jobject \<Rightarrow> string" where
  "scheduleTimezone scheduleData =
     (case map_of scheduleData ''timezone'' of
        Some (JString tz) \<Rightarrow> if tz \<noteq> [] then tz else ''UTC''
      | _ \<Rightarrow> ''UTC'')"

definition UpdateScheduleNextRun :: "tzdb \<Rightarrow> World \<Rightarrow> nat \<Rightarrow> error option \<times> World" where
  "UpdateScheduleNextRun db w scheduleID =
     (let (failed, w1) = db_exec w
      in if failed then (Some ErrStore, w1)
         else
           (case find (\<lambda>s. ID s = scheduleID) (schedules w1) of
              None \<Rightarrow> (Some ErrRecordNotFound, w1)
            | Some schedule \<Rightarrow>
                (let scheduleData = ScheduleData schedule;
                     userTimezone = scheduleTimezone scheduleData;
                     (res, w2) = calculateNextRunTime db w1 (ScheduleType schedule)
                                   (Some scheduleData) userTimezone
                 in case res of
                      Inl e \<Rightarrow> (Some e, w2)
                    | Inr nextRunAt \<Rightarrow>
                        (let schedule1 =
                               (if ScheduleType schedule = ''once''
                                then schedule\<lparr>IsActive := False, NextRunAt := None\<rparr>
                                else schedule\<lparr>NextRunAt := Some (unixNano nextRunAt)\<rparr>);
                             (nowUTC, w3) = GetCurrentUTC w2;
                             schedule2 = schedule1\<lparr>LastRunAt := Some nowUTC\<rparr>;
                             (failed', w4) = db_exec w3
                         in if failed' then (Some ErrStore, w4)
                            else (None, w4\<lparr>schedules := save schedule2 (schedules w4)\<rparr>)))))"

text \<open>
  \<^verbatim>\<open>GetDueSchedules\<close>. The query selects some columns only; \<^verbatim>\<open>is_active\<close> and
  \<^verbatim>\<open>last_run_at\<close> are not among them and stay at Go's zero values in the rows
  returned. A \<^verbatim>\<open>NULL\<close> \<^verbatim>\<open>next_run_at\<close> does not satisfy the comparison.
\<close>

definition GetDueSchedules :: "World \<Rightarrow> (error + Schedule list) \<times> World" where
  "GetDueSchedules w =
     (let (nowUTC, w1) = GetCurrentUTC w;
          (failed, w2) = db_exec w1
      in if failed then (Inl ErrStore, w2)
         else (Inr (map (\<lambda>s. s\<lparr>IsActive := False, LastRunAt := None\<rparr>)
                     (filter (\<lambda>s. IsActive s \<and>
                                   (case NextRunAt s of None \<Rightarrow> False | Some t \<Rightarrow> t \<le> nowUTC))
                        (schedules w2))),
               w2))"

text \<open>
  The runner. What \<^verbatim>\<open>submitCollectionToQL2\<close> and \<^verbatim>\<open>submitSearchToQL2\<close> do happens in
  the collection, search and wallet tables and in the submission callback, all outside
  this model; each is represented by its outcome, \<open>None\<close> for success or the error text.
\<close>

record SchedulerRunner =
  submitCollectionToQL2 :: "nat \<Rightarrow> string \<Rightarrow> string option"
  submitSearchToQL2 :: "nat \<Rightarrow> string option"

definition executeScheduledJob ::
  "SchedulerRunner \<Rightarrow> World \<Rightarrow> Schedule \<Rightarrow> string option \<times> World" where
  "executeScheduledJob sr w schedule =
     (let (cerr, w1) =
            (case CollectionID schedule of
               None \<Rightarrow> (False, w)
             | Some c \<Rightarrow> (let (failed, w') = db_exec w
                          in (failed \<or> c \<notin> set (collections w'), w')))
      in if cerr then (Some ''failed to load collection'', w1)
         else
           (let (serr, w2) =
                  (case SearchID schedule of
                     None \<Rightarrow> (False, w1)
                   | Some q \<Rightarrow> (let (failed, w') = db_exec w1
                                in (failed \<or> q \<notin> set (searches w'), w')))
            in if serr then (Some ''failed to load search'', w2)
               else (case CollectionID schedule of
                       Some c \<Rightarrow> (submitCollectionToQL2 sr c (UserID schedule), w2)
                     | None \<Rightarrow>
                         (case SearchID schedule of
                            Some q \<Rightarrow> (submitSearchToQL2 sr q, w2)
                          | None \<Rightarrow> (Some ''no collection or search found for schedule'', w2)))))"

text \<open>The calls one execution makes on the scheduler service, in order.\<close>

datatype call =
    Call_RecordScheduleRun nat string "string option"
  | Call_executeScheduledJob nat
  | Call_UpdateScheduleNextRun nat

text \<open>
  \<^verbatim>\<open>executeSchedule\<close>: the world it leaves and the calls it made. The deferred function
  runs when the body returns, after the job; it is not registered when the first
  \<^verbatim>\<open>RecordScheduleRun\<close> fails.
\<close>

definition executeSchedule ::
  "tzdb \<Rightarrow> SchedulerRunner \<Rightarrow> World \<Rightarrow> Schedule \<Rightarrow> World \<times> call list" where
  "executeSchedule db sr w schedule =
     (let (err, w1) = RecordScheduleRun w (ID schedule) ''running'' None
      in case err of
           Some e \<Rightarrow> (w1, [Call_RecordScheduleRun (ID schedule) ''running'' None])
         | None \<Rightarrow>
             (let (errorMsg, w2) = executeScheduledJob sr w1 schedule;
                  status = (if errorMsg \<noteq> None then ''failed'' else ''completed'');
                  (err2, w3) = RecordScheduleRun w2 (ID schedule) status errorMsg;
                  (err3, w4) = UpdateScheduleNextRun db w3 (ID schedule)
              in (w4, [Call_RecordScheduleRun (ID schedule) ''running'' None,
                       Call_executeScheduledJob (ID schedule),
                       Call_RecordScheduleRun (ID schedule) status errorMsg,
                       Call_UpdateScheduleNextRun (ID schedule)])))"

text \<open>
  \<^verbatim>\<open>RunScheduler\<close>: one poll. The source starts the executions concurrently; here
  they run one after the other, in the order of the rows returned.
\<close>

definition RunScheduler :: "tzdb \<Rightarrow> SchedulerRunner \<Rightarrow> World \<Rightarrow> error option \<times> World" where
  "RunScheduler db sr w =
     (let (res, w1) = GetDueSchedules w
      in case res of
           Inl e \<Rightarrow> (Some e, w1)
         | Inr rows \<Rightarrow> (None, fold (\<lambda>schedule w'. fst (executeSchedule db sr w' schedule)) rows w1))"

section \<open>Concrete data\<close>

text \<open>
  An excerpt of the time zone database: India (a fixed offset of 5:30), New York
  with its transitions from 2023 to 2025 (Eastern Standard Time before the first), and
  Asuncion with its transitions of 2017 and 2018 (summer time before the first), whose
  clocks went from 00:00 to 01:00 on Sunday 2017-10-01.
\<close>

definition Asia_Kolkata :: Location where
  "Asia_Kolkata = \<lparr>zone0 = 19800, tx = []\<rparr>"

definition America_New_York :: Location where
  "America_New_York = \<lparr>zone0 = - 18000,
     tx = [(1678604400, - 14400), (1699164000, - 18000),
           (1710054000, - 14400), (1730613600, - 18000),
           (1741503600, - 14400), (1762063200, - 18000)]\<rparr>"

definition America_Asuncion :: Location where
  "America_Asuncion = \<lparr>zone0 = - 10800,
     tx = [(1490497200, - 14400), (1506830400, - 10800), (1521946800, - 14400)]\<rparr>"

definition tzdata :: tzdb where
  "tzdata name =
     (if name = ''Asia/Kolkata'' then Some Asia_Kolkata
      else if name = ''America/New_York'' then Some America_New_York
      else if name = ''America/Asuncion'' then Some America_Asuncion
      else None)"

text \<open>
  Worlds used to run the operations on concrete data. The clock starts at
  2024-01-15 09:00:05 UTC and advances by a millisecond per reading.
\<close>

definition clock_A :: "nat \<Rightarrow> instant" where
  "clock_A k = 1705309205000000000 + 1000000 * int k"

text \<open>A daily schedule at 09:00 UTC that fell due at 2024-01-15 09:00:00 UTC.\<close>

definition sched_A :: Schedule where
  "sched_A = \<lparr>ID = 1, UserID = ''a@example.com'', Name = ''nightly'',
     ScheduleType = ''daily'',
     ScheduleData = [(''time'', JString ''09:00''), (''timezone'', JString ''UTC'')],
     IsActive = True, LastRunAt = None, NextRunAt = Some 1705309200000000000,
     CollectionID = Some 7, SearchID = None\<rparr>"

definition world_A :: World where
  "world_A = \<lparr>schedules = [sched_A], schedule_runs = [], collections = [7], searches = [],
     clock = clock_A, reads = 0, fails = (\<lambda>k. False), stmts = 0\<rparr>"

text \<open>
  The same schedule with the zone written \<^verbatim>\<open>IST\<close>, the abbreviation the comments of the
  schedule data structures give as an example; it is not a name of the database.
\<close>

definition sched_IST :: Schedule where
  "sched_IST = sched_A\<lparr>ScheduleData :=
     [(''time'', JString ''09:00''), (''timezone'', JString ''IST'')]\<rparr>"

definition world_IST :: World where
  "world_IST = world_A\<lparr>schedules := [sched_IST]\<rparr>"

text \<open>A one-shot schedule that fell due at the same instant.\<close>

definition sched_once :: Schedule where
  "sched_once = sched_A\<lparr>ScheduleType := ''once'', ScheduleData :=
     [(''date_time'', JString ''2024-01-15T09:00:00Z''), (''timezone'', JString ''UTC'')]\<rparr>"

definition world_once :: World where
  "world_once = world_A\<lparr>schedules := [sched_once]\<rparr>"

text \<open>A one-shot schedule whose date carries an offset and whose zone does not load.\<close>

definition sched_once_IST :: Schedule where
  "sched_once_IST = sched_A\<lparr>ScheduleType := ''once'', ScheduleData :=
     [(''date_time'', JString ''2024-01-15T14:30:00+05:30''), (''timezone'', JString ''IST'')]\<rparr>"

definition world_once_IST :: World where
  "world_once_IST = world_A\<lparr>schedules := [sched_once_IST]\<rparr>"

text \<open>A runner whose submissions succeed, and one whose submissions always fail.\<close>

definition runner_ok :: SchedulerRunner where
  "runner_ok = \<lparr>submitCollectionToQL2 = (\<lambda>c u. None), submitSearchToQL2 = (\<lambda>q. None)\<rparr>"

definition runner_failing :: SchedulerRunner where
  "runner_failing = \<lparr>submitCollectionToQL2 = (\<lambda>c u. Some ''failed to submit collection to QL2''),
     submitSearchToQL2 = (\<lambda>q. Some ''failed to submit search'')\<rparr>"

text \<open>
  A user whose profile zone is Asia/Kolkata creates, at 2024-01-15 03:00:00 UTC, a
  daily schedule for 09:00 whose schedule data name the zone \<^verbatim>\<open>IST\<close>. The polls that
  follow read the clock from 03:30:05 UTC on, a millisecond apart.
\<close>

definition clock_B :: "nat \<Rightarrow> instant" where
  "clock_B k = (if k = 0 then 1705287600000000000
                else 1705289405000000000 + 1000000 * int k)"

definition world_B :: World where
  "world_B = \<lparr>schedules = [], schedule_runs = [], collections = [7], searches = [],
     clock = clock_B, reads = 0, fails = (\<lambda>k. False), stmts = 0\<rparr>"

definition world_B_created :: World where
  "world_B_created = snd (CreateSchedule tzdata world_B ''a@example.com'' ''nightly'' ''daily''
     (Some [(''time'', JString ''09:00''), (''timezone'', JString ''IST'')])
     (Some 7) None ''Asia/Kolkata'')"

definition world_B_polled :: World where
  "world_B_polled = snd (RunScheduler tzdata runner_failing world_B_created)"

definition world_B_polled_twice :: World where
  "world_B_polled_twice = snd (RunScheduler tzdata runner_failing world_B_polled)"

section \<open>Properties of the store operations\<close>

lemma DeleteSchedule_ok:
  "\<not> fails w (stmts w) \<Longrightarrow>
   DeleteSchedule w scheduleID userID =
     (None, w\<lparr>stmts := Suc (stmts w),
              schedules := map (\<lambda>s. if ID s = scheduleID \<and> UserID s = userID
                                     then s\<lparr>IsActive := False\<rparr> else s) (schedules w)\<rparr>)"
  by (simp add: DeleteSchedule_def db_exec_def)

lemma map_deactivate_id:
  "\<forall>s \<in> set xs. \<not> (ID s = i \<and> UserID s = u) \<Longrightarrow>
   map (\<lambda>s. if ID s = i \<and> UserID s = u then s\<lparr>IsActive := False\<rparr> else s) xs = xs"
  by (induction xs) auto

text \<open>
  Claim C9. When the store executes the statement, \<open>DeleteSchedule\<close> returns no error.
  If no schedule with the given id belongs to \<open>userID\<close> (it does not exist, or it is owned
  by someone else), both tables are left exactly as they were, so the two situations
  cannot be told apart. Otherwise every schedule with that id and owner is kept in place
  with \<open>IsActive = False\<close> and all its other fields as before, every other schedule is
  untouched, and a second call leaves the tables as the first call left them.
\<close>

theorem DeleteSchedule_owner_scoped:
  assumes ok: "\<not> fails w (stmts w)"
    and res: "DeleteSchedule w scheduleID userID = (r, w')"
  shows "r = None \<and>
         schedule_runs w' = schedule_runs w \<and>
         ((\<forall>s \<in> set (schedules w). \<not> (ID s = scheduleID \<and> UserID s = userID))
            \<longrightarrow> schedules w' = schedules w) \<and>
         length (schedules w') = length (schedules w) \<and>
         (\<forall>i < length (schedules w).
            (ID (schedules w ! i) = scheduleID \<and> UserID (schedules w ! i) = userID
               \<longrightarrow> schedules w' ! i = (schedules w ! i)\<lparr>IsActive := False\<rparr>) \<and>
            (\<not> (ID (schedules w ! i) = scheduleID \<and> UserID (schedules w ! i) = userID)
               \<longrightarrow> schedules w' ! i = schedules w ! i)) \<and>
         (\<not> fails w' (stmts w') \<longrightarrow>
            fst (DeleteSchedule w' scheduleID userID) = None \<and>
            schedules (snd (DeleteSchedule w' scheduleID userID)) = schedules w' \<and>
            schedule_runs (snd (DeleteSchedule w' scheduleID userID)) = schedule_runs w')"
proof -
  let ?f = "\<lambda>s. if ID s = scheduleID \<and> UserID s = userID then s\<lparr>IsActive := False\<rparr> else s"
  from res DeleteSchedule_ok[OF ok, of scheduleID userID]
  have r: "r = None"
    and w': "w' = w\<lparr>stmts := Suc (stmts w), schedules := map ?f (schedules w)\<rparr>"
    by simp_all
  have c2: "schedule_runs w' = schedule_runs w" by (simp add: w')
  have c3: "(\<forall>s \<in> set (schedules w). \<not> (ID s = scheduleID \<and> UserID s = userID))
          \<longrightarrow> schedules w' = schedules w"
    using map_deactivate_id[of "schedules w" scheduleID userID] by (simp add: w')
  have c4: "length (schedules w') = length (schedules w)" by (simp add: w')
  have c5: "\<forall>i < length (schedules w).
           (ID (schedules w ! i) = scheduleID \<and> UserID (schedules w ! i) = userID
              \<longrightarrow> schedules w' ! i = (schedules w ! i)\<lparr>IsActive := False\<rparr>) \<and>
           (\<not> (ID (schedules w ! i) = scheduleID \<and> UserID (schedules w ! i) = userID)
              \<longrightarrow> schedules w' ! i = schedules w ! i)"
    by (simp add: w')
  have idem: "map ?f (map ?f xs) = map ?f xs" for xs
    by (induction xs) auto
  have c6: "\<not> fails w' (stmts w') \<longrightarrow>
           fst (DeleteSchedule w' scheduleID userID) = None \<and>
           schedules (snd (DeleteSchedule w' scheduleID userID)) = schedules w' \<and>
           schedule_runs (snd (DeleteSchedule w' scheduleID userID)) = schedule_runs w'"
  proof
    assume ok': "\<not> fails w' (stmts w')"
    show "fst (DeleteSchedule w' scheduleID userID) = None \<and>
           schedules (snd (DeleteSchedule w' scheduleID userID)) = schedules w' \<and>
           schedule_runs (snd (DeleteSchedule w' scheduleID userID)) = schedule_runs w'"
      unfolding DeleteSchedule_ok[OF ok', of scheduleID userID]
      by (simp add: w' idem)
  qed
  from r c2 c3 c4 c5 c6 show ?thesis by blast
qed

theorem DeleteSchedule_owner_scoped_witness:
  "fst (DeleteSchedule world_A 1 ''b@example.com'') = None \<and>
   schedules (snd (DeleteSchedule world_A 1 ''b@example.com'')) = [sched_A] \<and>
   fst (DeleteSchedule world_A 1 ''a@example.com'') = None \<and>
   schedules (snd (DeleteSchedule world_A 1 ''a@example.com'')) = [sched_A\<lparr>IsActive := False\<rparr>] \<and>
   schedules (snd (DeleteSchedule (snd (DeleteSchedule world_A 1 ''a@example.com'')) 1 ''a@example.com''))
     = [sched_A\<lparr>IsActive := False\<rparr>]"
proof -
  have ok: "\<not> fails world_A (stmts world_A)" by (simp add: world_A_def)
  obtain r1 w1 where d1: "DeleteSchedule world_A 1 ''b@example.com'' = (r1, w1)"
    by (cases "DeleteSchedule world_A 1 ''b@example.com''")
  obtain r2 w2 where d2: "DeleteSchedule world_A 1 ''a@example.com'' = (r2, w2)"
    by (cases "DeleteSchedule world_A 1 ''a@example.com''")
  have ok2: "\<not> fails w2 (stmts w2)"
    using d2 by (auto simp: DeleteSchedule_def db_exec_def world_A_def)
  from DeleteSchedule_owner_scoped[OF ok d1] DeleteSchedule_owner_scoped[OF ok d2] ok2
  show ?thesis
    by (simp add: DeleteSchedule_def db_exec_def world_A_def sched_A_def)
qed


section \<open>Properties of advancing and running\<close>

lemma RecordScheduleRun_frame:
  "schedules (snd (RecordScheduleRun w i st m)) = schedules w \<and>
   clock (snd (RecordScheduleRun w i st m)) = clock w \<and>
   fails (snd (RecordScheduleRun w i st m)) = fails w \<and>
   reads (snd (RecordScheduleRun w i st m)) = Suc (reads w) \<and>
   stmts (snd (RecordScheduleRun w i st m)) = Suc (stmts w)"
  by (simp add: RecordScheduleRun_def GetCurrentUTC_def db_exec_def Let_def)

lemma RecordScheduleRun_ok:
  "\<not> fails w (stmts w) \<Longrightarrow> fst (RecordScheduleRun w i st m) = None \<and>
   schedule_runs (snd (RecordScheduleRun w i st m)) =
     schedule_runs w @
       [\<lparr>RunID = Suc (length (schedule_runs w)), ScheduleID = i, Status = st,
         StartedAt = clock w (reads w),
         CompletedAt = (if st = ''completed'' \<or> st = ''failed''
                        then Some (clock w (reads w)) else None),
         ErrorMsg = m\<rparr>]"
  by (simp add: RecordScheduleRun_def GetCurrentUTC_def db_exec_def Let_def)

lemma RecordScheduleRun_failed:
  "fails w (stmts w) \<Longrightarrow> fst (RecordScheduleRun w i st m) = Some ErrStore \<and>
   schedule_runs (snd (RecordScheduleRun w i st m)) = schedule_runs w"
  by (simp add: RecordScheduleRun_def GetCurrentUTC_def db_exec_def Let_def)

lemma executeScheduledJob_frame:
  "schedules (snd (executeScheduledJob sr w s)) = schedules w \<and>
   schedule_runs (snd (executeScheduledJob sr w s)) = schedule_runs w \<and>
   clock (snd (executeScheduledJob sr w s)) = clock w \<and>
   fails (snd (executeScheduledJob sr w s)) = fails w \<and>
   reads (snd (executeScheduledJob sr w s)) = reads w"
  by (simp add: executeScheduledJob_def db_exec_def Let_def split: option.splits prod.splits)

lemma find_ID:
  "find (\<lambda>r. ID r = i) rows = Some s \<Longrightarrow> ID s = i \<and> s \<in> set rows"
  by (induction rows) (auto split: if_splits)

lemma save_existing:
  "s \<in> set rows \<Longrightarrow> ID s' = ID s \<Longrightarrow>
   save s' rows = map (\<lambda>r. if ID r = ID s then s' else r) rows"
  by (auto simp: save_def)

text \<open>What a successful \<open>UpdateScheduleNextRun\<close> has done.\<close>

lemma UpdateScheduleNextRun_success:
  assumes upd: "UpdateScheduleNextRun db w scheduleID = (None, w')"
    and row: "find (\<lambda>r. ID r = scheduleID) (schedules w) = Some s"
  shows "\<exists>t. calculateNextRunTime_at db (clock w (reads w)) (ScheduleType s)
               (Some (ScheduleData s)) (scheduleTimezone (ScheduleData s)) = Inr t \<and>
             schedules w' =
               map (\<lambda>r. if ID r = scheduleID
                         then (if ScheduleType s = ''once''
                               then s\<lparr>IsActive := False, NextRunAt := None\<rparr>
                               else s\<lparr>NextRunAt := Some (unixNano t)\<rparr>)
                              \<lparr>LastRunAt := Some (clock w (Suc (reads w)))\<rparr>
                         else r) (schedules w) \<and>
             schedule_runs w' = schedule_runs w"
proof -
  from find_ID[OF row] have id: "ID s = scheduleID" and mem: "s \<in> set (schedules w)"
    by simp_all
  show ?thesis
  proof (cases "calculateNextRunTime_at db (clock w (reads w)) (ScheduleType s)
      (Some (ScheduleData s)) (scheduleTimezone (ScheduleData s))")
    case (Inl e)
    with upd row show ?thesis
      by (simp add: UpdateScheduleNextRun_def calculateNextRunTime_def GetCurrentUTC_def
          db_exec_def Let_def split: if_splits)
  next
    case (Inr t)
    have sv: "save s' (schedules w) = map (\<lambda>r. if ID r = scheduleID then s' else r) (schedules w)"
      if "ID s' = scheduleID" for s'
      using save_existing[OF mem, of s'] that id by simp
    from upd row Inr show ?thesis
      by (auto simp: UpdateScheduleNextRun_def calculateNextRunTime_def GetCurrentUTC_def
          db_exec_def Let_def id sv split: if_splits)
  qed
qed

lemma GetDueSchedules_rows:
  "fst (GetDueSchedules w) = Inr rows \<Longrightarrow>
   rows = map (\<lambda>s. s\<lparr>IsActive := False, LastRunAt := None\<rparr>)
            (filter (\<lambda>s. IsActive s \<and>
                          (case NextRunAt s of None \<Rightarrow> False | Some t \<Rightarrow> t \<le> clock w (reads w)))
               (schedules w))"
  by (simp add: GetDueSchedules_def GetCurrentUTC_def db_exec_def Let_def split: if_splits)

text \<open>
  Claim C3. After a successful \<open>UpdateScheduleNextRun\<close> on a schedule of type
  \<^verbatim>\<open>once\<close>, the table still holds the schedule, now with \<open>IsActive = False\<close>,
  \<open>NextRunAt = None\<close> and \<open>LastRunAt\<close> the instant read from the clock for the stamp (the
  reading after the one the recomputation made), all other fields as before. In every
  world with that table, whatever its clock shows, \<open>GetDueSchedules\<close> returns no row
  with this id.
\<close>

theorem once_schedule_retired:
  assumes upd: "UpdateScheduleNextRun db w scheduleID = (None, w')"
    and row: "find (\<lambda>r. ID r = scheduleID) (schedules w) = Some s"
    and once: "ScheduleType s = ''once''"
  shows "(\<exists>r \<in> set (schedules w'). ID r = scheduleID) \<and>
         (\<forall>r \<in> set (schedules w'). ID r = scheduleID \<longrightarrow>
            r = s\<lparr>IsActive := False, NextRunAt := None,
                  LastRunAt := Some (clock w (Suc (reads w)))\<rparr>) \<and>
         (\<forall>w2 rows. schedules w2 = schedules w' \<longrightarrow> fst (GetDueSchedules w2) = Inr rows
            \<longrightarrow> scheduleID \<notin> ID ` set rows)"
proof -
  let ?s' = "s\<lparr>IsActive := False, NextRunAt := None,
                LastRunAt := Some (clock w (Suc (reads w)))\<rparr>"
  from find_ID[OF row] have id: "ID s = scheduleID" and mem: "s \<in> set (schedules w)"
    by simp_all
  from UpdateScheduleNextRun_success[OF upd row] once
  have tab: "schedules w' = map (\<lambda>r. if ID r = scheduleID then ?s' else r) (schedules w)"
    by auto
  have "(\<lambda>r. if ID r = scheduleID then ?s' else r) s \<in> set (schedules w')"
    unfolding tab using mem by simp
  then have "?s' \<in> set (schedules w')" using id by simp
  moreover have "ID ?s' = scheduleID" using id by simp
  ultimately have a: "\<exists>r \<in> set (schedules w'). ID r = scheduleID" by blast
  have b: "\<forall>r \<in> set (schedules w'). ID r = scheduleID \<longrightarrow> r = ?s'"
    unfolding tab by auto
  have c: "scheduleID \<notin> ID ` set rows"
    if w2: "schedules w2 = schedules w'" and due: "fst (GetDueSchedules w2) = Inr rows"
    for w2 rows
  proof
    assume "scheduleID \<in> ID ` set rows"
    then obtain r where r: "r \<in> set (schedules w2)" "IsActive r" "ID r = scheduleID"
      unfolding GetDueSchedules_rows[OF due] by auto
    with b w2 show False by auto
  qed
  from a b c show ?thesis by blast
qed

theorem once_schedule_retired_witness:
  "map (\<lambda>r. (ID r, IsActive r, NextRunAt r, LastRunAt r))
       (schedules (snd (UpdateScheduleNextRun tzdata world_once 1)))
     = [(1, False, None, Some 1705309205001000000)] \<and>
   fst (GetDueSchedules (snd (UpdateScheduleNextRun tzdata world_once 1))) = Inr []"
proof -
  have "fst (UpdateScheduleNextRun tzdata world_once 1) = None" by code_simp
  then have upd: "UpdateScheduleNextRun tzdata world_once 1
      = (None, snd (UpdateScheduleNextRun tzdata world_once 1))"
    by (simp add: prod_eq_iff)
  have row: "find (\<lambda>r. ID r = 1) (schedules world_once) = Some sched_once"
    by (simp add: world_once_def world_A_def sched_once_def sched_A_def)
  have once: "ScheduleType sched_once = ''once''"
    by (simp add: sched_once_def)
  have c: "map (\<lambda>r. (ID r, IsActive r, NextRunAt r, LastRunAt r))
       (schedules (snd (UpdateScheduleNextRun tzdata world_once 1)))
     = [(1, False, None, Some 1705309205001000000)] \<and>
   fst (GetDueSchedules (snd (UpdateScheduleNextRun tzdata world_once 1))) = Inr []"
    by code_simp
  from once_schedule_retired[OF upd row once] show ?thesis by - (rule c)
qed

text \<open>
  Claim C10. When the store answers the read and the recomputation of the next run
  fails, \<open>UpdateScheduleNextRun\<close> returns that error having sent the read and nothing
  else to the store: both tables are as before, so \<open>IsActive\<close>, \<open>NextRunAt\<close> and
  \<open>LastRunAt\<close> of the schedule are unchanged. If the schedule was active with a next run
  at \<open>t\<close>, every later poll whose clock shows \<open>t\<close> or later returns it again; this holds
  for a schedule of type \<^verbatim>\<open>once\<close> as for any other.
\<close>

theorem failed_recomputation_writes_nothing:
  assumes ok: "\<not> fails w (stmts w)"
    and row: "find (\<lambda>r. ID r = scheduleID) (schedules w) = Some s"
    and calc: "calculateNextRunTime_at db (clock w (reads w)) (ScheduleType s)
                 (Some (ScheduleData s)) (scheduleTimezone (ScheduleData s)) = Inl e"
    and upd: "UpdateScheduleNextRun db w scheduleID = (r, w')"
  shows "r = Some e \<and> schedules w' = schedules w \<and> schedule_runs w' = schedule_runs w \<and>
         stmts w' = Suc (stmts w) \<and>
         (\<forall>w2 t. schedules w2 = schedules w' \<and> IsActive s \<and> NextRunAt s = Some t \<and>
                  t \<le> clock w2 (reads w2) \<and> \<not> fails w2 (stmts w2)
            \<longrightarrow> (\<exists>rows. fst (GetDueSchedules w2) = Inr rows \<and> scheduleID \<in> ID ` set rows))"
proof -
  from find_ID[OF row] have id: "ID s = scheduleID" and mem: "s \<in> set (schedules w)"
    by simp_all
  from upd ok row calc
  have r: "r = Some e" and w': "w' = w\<lparr>stmts := Suc (stmts w), reads := Suc (reads w)\<rparr>"
    by (simp_all add: UpdateScheduleNextRun_def calculateNextRunTime_def GetCurrentUTC_def
        db_exec_def Let_def)
  have due: "\<exists>rows. fst (GetDueSchedules w2) = Inr rows \<and> scheduleID \<in> ID ` set rows"
    if h: "schedules w2 = schedules w' \<and> IsActive s \<and> NextRunAt s = Some t \<and>
           t \<le> clock w2 (reads w2) \<and> \<not> fails w2 (stmts w2)" for w2 t
  proof -
    let ?due = "\<lambda>s. IsActive s \<and>
                  (case NextRunAt s of None \<Rightarrow> False | Some t \<Rightarrow> t \<le> clock w2 (reads w2))"
    let ?rows = "map (\<lambda>s. s\<lparr>IsActive := False, LastRunAt := None\<rparr>) (filter ?due (schedules w2))"
    from h have g: "fst (GetDueSchedules w2) = Inr ?rows"
      by (simp add: GetDueSchedules_def GetCurrentUTC_def db_exec_def Let_def)
    from h mem w' have "s \<in> set (filter ?due (schedules w2))" by simp
    then have "ID s \<in> ID ` set ?rows" by (force simp: image_iff)
    with g id show ?thesis by blast
  qed
  have f: "schedules w' = schedules w" "schedule_runs w' = schedule_runs w"
    "stmts w' = Suc (stmts w)"
    by (simp_all add: w')
  from due have d: "\<forall>w2 t. schedules w2 = schedules w' \<and> IsActive s \<and> NextRunAt s = Some t \<and>
                  t \<le> clock w2 (reads w2) \<and> \<not> fails w2 (stmts w2)
            \<longrightarrow> (\<exists>rows. fst (GetDueSchedules w2) = Inr rows \<and> scheduleID \<in> ID ` set rows)"
    by blast
  from r f d show ?thesis by blast
qed

theorem failed_recomputation_writes_nothing_witness:
  "fst (UpdateScheduleNextRun tzdata world_once_IST 1) = Some (ErrTimezone ''IST'') \<and>
   map (\<lambda>r. (ID r, IsActive r, NextRunAt r, LastRunAt r))
       (schedules (snd (UpdateScheduleNextRun tzdata world_once_IST 1)))
     = [(1, True, Some 1705309200000000000, None)] \<and>
   map ID (projr (fst (GetDueSchedules (snd (UpdateScheduleNextRun tzdata world_once_IST 1)))))
     = [1]"
proof -
  have ok: "\<not> fails world_once_IST (stmts world_once_IST)"
    by (simp add: world_once_IST_def world_A_def)
  have row: "find (\<lambda>r. ID r = 1) (schedules world_once_IST) = Some sched_once_IST"
    by (simp add: world_once_IST_def world_A_def sched_once_IST_def sched_A_def)
  have calc: "calculateNextRunTime_at tzdata (clock world_once_IST (reads world_once_IST))
      (ScheduleType sched_once_IST) (Some (ScheduleData sched_once_IST))
      (scheduleTimezone (ScheduleData sched_once_IST)) = Inl (ErrTimezone ''IST'')"
    by code_simp
  have upd: "UpdateScheduleNextRun tzdata world_once_IST 1
      = (fst (UpdateScheduleNextRun tzdata world_once_IST 1),
         snd (UpdateScheduleNextRun tzdata world_once_IST 1))"
    by simp
  have c: "fst (UpdateScheduleNextRun tzdata world_once_IST 1) = Some (ErrTimezone ''IST'') \<and>
   map (\<lambda>r. (ID r, IsActive r, NextRunAt r, LastRunAt r))
       (schedules (snd (UpdateScheduleNextRun tzdata world_once_IST 1)))
     = [(1, True, Some 1705309200000000000, None)] \<and>
   map ID (projr (fst (GetDueSchedules (snd (UpdateScheduleNextRun tzdata world_once_IST 1)))))
     = [1]"
    by code_simp
  from failed_recomputation_writes_nothing[OF ok row calc upd]
  show ?thesis by - (rule c)
qed

text \<open>
  Claim C5, evaluated on the code. One execution of a due schedule whose writes all
  succeed leaves two rows in the run table: the row inserted at the start, still
  \<^verbatim>\<open>running\<close> and without a completion time, and a second row inserted at the end with
  the terminal status and its own start time. \<open>RecordScheduleRun\<close> only ever inserts.
\<close>

theorem executeSchedule_inserts_two_runs:
  "map (\<lambda>r. (RunID r, ScheduleID r, Status r, StartedAt r, CompletedAt r, ErrorMsg r))
       (schedule_runs (fst (executeSchedule tzdata runner_ok world_A sched_A)))
     = [(1, 1, ''running'', 1705309205000000000, None, None),
        (2, 1, ''completed'', 1705309205001000000, Some 1705309205001000000, None)]"
  by code_simp

text \<open>
  Claim C6, evaluated on the code. For a monthly schedule on day 31 at 09:00 UTC and
  now = 2023-01-31 12:00 UTC, the month after now's month is February, but the code
  returns 2023-03-31 09:00 UTC: \<^verbatim>\<open>AddDate(0, 1, 0)\<close> turns January 31 into the
  non-existent February 31, which \<^verbatim>\<open>time.Date\<close> normalises to March 3.
\<close>

theorem calculateMonthlyNextRun_skips_february:
  "calculateNextRunTime_at tzdata 1675166400000000000 ''monthly''
     (Some [(''day_of_month'', JNumber 31), (''time'', JString ''09:00''),
            (''timezone'', JString ''UTC'')]) ''UTC''
     = Inr (Date 2023 3 31 9 0 0 0 UTC) \<and>
   unixNano (Date 2023 1 31 12 0 0 0 UTC) = 1675166400000000000 \<and>
   DateOf (AddDate (Date 2023 1 31 12 0 0 0 UTC) 0 1 0) = (2023, 3, 3)"
proof -
  let ?now = "\<lparr>unixNano = 1675166400000000000, location = UTC\<rparr>"
  have f1: "ConvertFromUTC tzdata ?now ''UTC'' = Inr ?now" by code_simp
  have f2: "LoadLocation tzdata ''UTC'' = Some UTC" by code_simp
  have f3: "DateOf (AddDate ?now 0 1 0) = (2023, 3, 3)" by code_simp
  have f4: "Day (Date 2023 4 0 0 0 0 0 UTC) = 31" by code_simp
  have f5: "ParseInLocation_date_clock (2023, 3, 31) ''09:00'' UTC
      = Inr (Date 2023 3 31 9 0 0 0 UTC)"
    by code_simp
  have f6: "ConvertToUTC tzdata (Date 2023 3 31 9 0 0 0 UTC) ''UTC''
      = Inr (Date 2023 3 31 9 0 0 0 UTC)"
    by code_simp
  have m: "calculateMonthlyNextRun tzdata 31 ''09:00'' ''UTC'' ?now
      = Inr (Date 2023 3 31 9 0 0 0 UTC)"
    unfolding calculateMonthlyNextRun_def by (simp add: Let_def f1 f2 f3 f4 f5 f6)
  have a: "calculateNextRunTime_at tzdata 1675166400000000000 ''monthly''
     (Some [(''day_of_month'', JNumber 31), (''time'', JString ''09:00''),
            (''timezone'', JString ''UTC'')]) ''UTC'' = Inr (Date 2023 3 31 9 0 0 0 UTC)"
    unfolding calculateNextRunTime_at_def by (simp add: Let_def m)
  have b: "unixNano (Date 2023 1 31 12 0 0 0 UTC) = 1675166400000000000" by code_simp
  have c: "DateOf (AddDate (Date 2023 1 31 12 0 0 0 UTC) 0 1 0) = (2023, 3, 3)" by code_simp
  from a b c show ?thesis by simp
qed

text \<open>
  Claim C7, evaluated on the code. Anchor 2024-01-06 (a Saturday), weekday 0 (Sunday),
  09:00 UTC, now = 2024-01-16 12:00 UTC: no whole cycle has elapsed, the projection on
  Sunday goes back to 2023-12-31, one cycle is added, and the result is
  2024-01-14 09:00 UTC, which lies before now.
\<close>

theorem calculateBiweeklyNextRun_returns_past:
  "calculateNextRunTime_at tzdata (unixNano (Date 2024 1 16 12 0 0 0 UTC)) ''biweekly''
     (Some [(''day_of_week'', JNumber 0), (''time'', JString ''09:00''),
            (''start_date'', JString ''2024-01-06''), (''timezone'', JString ''UTC'')]) ''UTC''
     = Inr (Date 2024 1 14 9 0 0 0 UTC) \<and>
   Before (Date 2024 1 14 9 0 0 0 UTC) (Date 2024 1 16 12 0 0 0 UTC)"
  by code_simp

text \<open>The schedule table after \<open>UpdateScheduleNextRun\<close>, in every case.\<close>

lemma UpdateScheduleNextRun_schedules:
  "schedules (snd (UpdateScheduleNextRun db w i)) =
     (case find (\<lambda>r. ID r = i) (schedules w) of
        None \<Rightarrow> schedules w
      | Some s \<Rightarrow>
          if fails w (stmts w) then schedules w
          else (case calculateNextRunTime_at db (clock w (reads w)) (ScheduleType s)
                       (Some (ScheduleData s)) (scheduleTimezone (ScheduleData s)) of
                  Inl e \<Rightarrow> schedules w
                | Inr t \<Rightarrow>
                    if fails w (Suc (stmts w)) then schedules w
                    else map (\<lambda>r. if ID r = i
                                    then (if ScheduleType s = ''once''
                                          then s\<lparr>IsActive := False, NextRunAt := None\<rparr>
                                          else s\<lparr>NextRunAt := Some (unixNano t)\<rparr>)
                                         \<lparr>LastRunAt := Some (clock w (Suc (reads w)))\<rparr>
                                    else r) (schedules w)))"
proof (cases "find (\<lambda>r. ID r = i) (schedules w)")
  case None
  then show ?thesis
    by (simp add: UpdateScheduleNextRun_def db_exec_def Let_def)
next
  case (Some s)
  from find_ID[OF Some] have id: "ID s = i" and mem: "s \<in> set (schedules w)"
    by simp_all
  have sv: "save s' (schedules w) = map (\<lambda>r. if ID r = i then s' else r) (schedules w)"
    if "ID s' = i" for s'
    using save_existing[OF mem, of s'] that id by simp
  show ?thesis
    using Some
    by (simp add: UpdateScheduleNextRun_def calculateNextRunTime_def GetCurrentUTC_def
        db_exec_def Let_def id sv split: sum.splits)
qed

text \<open>
  Claim C4, evaluated on the code. The schedule created above is accepted, with its
  first run at 03:30:00 UTC. At the next poll it is due and is executed; the submission
  fails, \<open>UpdateScheduleNextRun\<close> is called and returns the zone error before writing,
  and the schedule keeps the \<open>NextRunAt\<close> that has passed. The following poll selects it
  again: two attempts have left four run rows and the schedule is still not advanced.
\<close>

theorem failing_schedule_is_not_advanced:
  "map NextRunAt (schedules world_B_created) = [Some 1705289400000000000] \<and>
   map IsActive (schedules world_B_created) = [True] \<and>
   snd (executeSchedule tzdata runner_failing world_B_created (hd (schedules world_B_created)))
     = [Call_RecordScheduleRun 1 ''running'' None,
        Call_executeScheduledJob 1,
        Call_RecordScheduleRun 1 ''failed'' (Some ''failed to submit collection to QL2''),
        Call_UpdateScheduleNextRun 1] \<and>
   fst (UpdateScheduleNextRun tzdata world_B_created 1) = Some (ErrTimezone ''IST'') \<and>
   map NextRunAt (schedules world_B_polled) = [Some 1705289400000000000] \<and>
   map Status (schedule_runs world_B_polled) = [''running'', ''failed''] \<and>
   map NextRunAt (schedules world_B_polled_twice) = [Some 1705289400000000000] \<and>
   map IsActive (schedules world_B_polled_twice) = [True] \<and>
   map Status (schedule_runs world_B_polled_twice)
     = [''running'', ''failed'', ''running'', ''failed''] \<and>
   1705289400000000000 < clock_B 1"
  by code_simp

lemma parseRFC3339_fields_zone:
  "parseRFC3339_fields s = Some (date, clk, zone, off) \<Longrightarrow> zoneOffset zone = Some off"
  unfolding parseRFC3339_fields_def
  by (auto simp: Let_def split: list.splits option.splits prod.splits if_splits Option.bind_splits)

text \<open>
  Claim C8, as amended. For a schedule of type \<^verbatim>\<open>once\<close> the calculation is
  \<open>ParseScheduleTime\<close>. A \<^verbatim>\<open>date_time\<close> that does not parse as RFC 3339 text is an
  error. A text that parses carries a zone, \<^verbatim>\<open>Z\<close> or a signed offset, and the result
  is the wall clock of the text taken at that offset, displayed in UTC: directly when
  the text ends in \<^verbatim>\<open>Z\<close>, and otherwise whenever the user's zone loads, whatever zone
  that is. When the text does not end in \<^verbatim>\<open>Z\<close> and the user's zone does not load, the
  result is the zone error.
\<close>

theorem ParseScheduleTime_instant_of_text:
  assumes dt: "map_of scheduleData ''date_time'' = Some (JString s)"
  shows "calculateNextRunTime_at db now ''once'' (Some scheduleData) tz
           = ParseScheduleTime db scheduleData tz \<and>
         (parseRFC3339_fields s = None \<longrightarrow>
            ParseScheduleTime db scheduleData tz = Inl (ErrParse s)) \<and>
         (\<forall>year month day hour minute sec nsec zone off.
            parseRFC3339_fields s
              = Some ((year, month, day), (hour, minute, sec, nsec), zone, off) \<longrightarrow>
            zoneOffset zone = Some off \<and>
            (last s = CHR ''Z'' \<or> LoadLocation db (if tz = [] then ''UTC'' else tz) \<noteq> None
               \<longrightarrow> ParseScheduleTime db scheduleData tz =
                     Inr \<lparr>unixNano = unixNano (Date year month day hour minute sec nsec UTC)
                                        - off * 1000000000,
                          location = UTC\<rparr>) \<and>
            (last s \<noteq> CHR ''Z'' \<and> LoadLocation db (if tz = [] then ''UTC'' else tz) = None
               \<longrightarrow> ParseScheduleTime db scheduleData tz =
                     Inl (ErrTimezone (if tz = [] then ''UTC'' else tz))))"
proof -
  have a: "calculateNextRunTime_at db now ''once'' (Some scheduleData) tz
      = ParseScheduleTime db scheduleData tz"
    by (simp add: calculateNextRunTime_at_def)
  have b: "parseRFC3339_fields s = None \<longrightarrow>
      ParseScheduleTime db scheduleData tz = Inl (ErrParse s)"
    by (simp add: ParseScheduleTime_def parseRFC3339_def dt)
  have c: "zoneOffset zone = Some off \<and>
      (last s = CHR ''Z'' \<or> LoadLocation db (if tz = [] then ''UTC'' else tz) \<noteq> None
         \<longrightarrow> ParseScheduleTime db scheduleData tz =
               Inr \<lparr>unixNano = unixNano (Date year month day hour minute sec nsec UTC)
                                  - off * 1000000000,
                    location = UTC\<rparr>) \<and>
      (last s \<noteq> CHR ''Z'' \<and> LoadLocation db (if tz = [] then ''UTC'' else tz) = None
         \<longrightarrow> ParseScheduleTime db scheduleData tz =
               Inl (ErrTimezone (if tz = [] then ''UTC'' else tz)))"
    if f: "parseRFC3339_fields s
        = Some ((year, month, day), (hour, minute, sec, nsec), zone, off)"
    for year month day hour minute sec nsec zone off
    using parseRFC3339_fields_zone[OF f]
    by (auto simp: ParseScheduleTime_def parseRFC3339_def dt f ConvertToUTC_def Let_def
        toUTC_def In_def)
  from a b c show ?thesis by blast
qed

theorem ParseScheduleTime_instant_of_text_witness:
  "ParseScheduleTime tzdata [(''date_time'', JString ''2025-01-15T17:00:00+05:30'')]
     ''America/New_York'' = Inr (Date 2025 1 15 11 30 0 0 UTC) \<and>
   ParseScheduleTime tzdata [(''date_time'', JString ''2025-01-15T17:00:00+05:30'')]
     ''Asia/Kolkata'' = Inr (Date 2025 1 15 11 30 0 0 UTC)"
proof -
  have dt: "map_of [(''date_time'', JString ''2025-01-15T17:00:00+05:30'')] ''date_time''
      = Some (JString ''2025-01-15T17:00:00+05:30'')"
    by simp
  have f: "parseRFC3339_fields ''2025-01-15T17:00:00+05:30''
      = Some ((2025, 1, 15), (17, 0, 0, 0), ''+05:30'', 19800)"
    by code_simp
  have l1: "LoadLocation tzdata (if ''America/New_York'' = [] then ''UTC'' else ''America/New_York'')
      \<noteq> None"
    by code_simp
  have l2: "LoadLocation tzdata (if ''Asia/Kolkata'' = [] then ''UTC'' else ''Asia/Kolkata'')
      \<noteq> None"
    by code_simp
  have v: "\<lparr>unixNano = unixNano (Date 2025 1 15 17 0 0 0 UTC) - 19800 * 1000000000,
            location = UTC\<rparr> = Date 2025 1 15 11 30 0 0 UTC"
    by code_simp
  from ParseScheduleTime_instant_of_text[OF dt, of tzdata 0 "''America/New_York''"] f l1
  have r1: "ParseScheduleTime tzdata [(''date_time'', JString ''2025-01-15T17:00:00+05:30'')]
     ''America/New_York'' = Inr \<lparr>unixNano = unixNano (Date 2025 1 15 17 0 0 0 UTC)
        - 19800 * 1000000000, location = UTC\<rparr>"
    by blast
  from ParseScheduleTime_instant_of_text[OF dt, of tzdata 0 "''Asia/Kolkata''"] f l2
  have r2: "ParseScheduleTime tzdata [(''date_time'', JString ''2025-01-15T17:00:00+05:30'')]
     ''Asia/Kolkata'' = Inr \<lparr>unixNano = unixNano (Date 2025 1 15 17 0 0 0 UTC)
        - 19800 * 1000000000, location = UTC\<rparr>"
    by blast
  show ?thesis unfolding r1 r2 v by simp
qed

text \<open>
  Claim C8 as stated fails on a text without a zone: it does not denote UTC, so the
  claim has its wall clock read in the user's zone, but the code returns a parse error
  and no instant.
\<close>

theorem ParseScheduleTime_rejects_text_without_zone:
  "ParseScheduleTime tzdata [(''date_time'', JString ''2025-01-15T17:00:00'')]
     ''America/New_York'' = Inl (ErrParse ''2025-01-15T17:00:00'') \<and>
   calculateNextRunTime_at tzdata 0 ''once''
     (Some [(''date_time'', JString ''2025-01-15T17:00:00'')]) ''America/New_York''
     = Inl (ErrParse ''2025-01-15T17:00:00'')"
  by code_simp

section \<open>Properties of the calendar\<close>

text \<open>
  The day count of a date and the date of a day count are inverse to each other, and the
  first days of successive months follow each other in order. The bounds on the division
  terms are linear facts, stated once here.
\<close>

lemma div_lo: "0 < k \<Longrightarrow> k * (a div k) \<le> (a::int)"
  using pos_mod_sign[of k a] mult_div_mod_eq[of k a] by linarith

lemma div_hi: "0 < k \<Longrightarrow> (a::int) < k * (a div k) + k"
  using pos_mod_bound[of k a] mult_div_mod_eq[of k a] by linarith

lemma lin_upper:
  "4 * q4 \<le> w \<Longrightarrow> w < 100 * q100 + 100 \<Longrightarrow> 400 * q400 \<le> w
   \<Longrightarrow> 146000 * w + 400 * q4 - 400 * q100 + 400 * q400 \<le> 146097 * (w::int) + 396"
  by linarith

lemma lin_lower:
  "w < 4 * q4 + 4 \<Longrightarrow> 100 * q100 \<le> w \<Longrightarrow> w < 400 * q400 + 400
   \<Longrightarrow> 146097 * (w::int) - 699 \<le> 146000 * w + 400 * q4 - 400 * q100 + 400 * q400"
  by linarith

lemma daysBeforeYear_upper: "400 * daysBeforeYear y \<le> 146097 * y - 145701"
proof -
  define w where "w = y - 1"
  have "4 * (w div 4) \<le> w" "w < 100 * (w div 100) + 100" "400 * (w div 400) \<le> w"
    using div_lo[of 4 w] div_hi[of 100 w] div_lo[of 400 w] by simp_all
  then have "146000 * w + 400 * (w div 4) - 400 * (w div 100) + 400 * (w div 400)
      \<le> 146097 * w + 396"
    by (rule lin_upper)
  moreover have "y = w + 1" by (simp add: w_def)
  ultimately show ?thesis unfolding daysBeforeYear_def by (simp add: algebra_simps)
qed

lemma daysBeforeYear_lower: "146097 * y - 146796 \<le> 400 * daysBeforeYear y"
proof -
  define w where "w = y - 1"
  have "w < 4 * (w div 4) + 4" "100 * (w div 100) \<le> w" "w < 400 * (w div 400) + 400"
    using div_hi[of 4 w] div_lo[of 100 w] div_hi[of 400 w] by simp_all
  then have "146097 * w - 699
      \<le> 146000 * w + 400 * (w div 4) - 400 * (w div 100) + 400 * (w div 400)"
    by (rule lin_lower)
  moreover have "y = w + 1" by (simp add: w_def)
  ultimately show ?thesis unfolding daysBeforeYear_def by (simp add: algebra_simps)
qed

lemma yearOfDay_lower: "daysBeforeYear (yearOfDay a) \<le> a"
proof -
  define z where "z = (400 * a) div 146097"
  have z: "146097 * z \<le> 400 * a" unfolding z_def using div_lo[of 146097 "400 * a"] by simp
  have "daysBeforeYear z \<le> a"
    using daysBeforeYear_upper[of z] z by linarith
  then show ?thesis
    unfolding yearOfDay_def Let_def z_def by auto
qed

lemma yearOfDay_upper: "a < daysBeforeYear (yearOfDay a + 1)"
proof -
  define z where "z = (400 * a) div 146097"
  define u where "u = z + 3"
  have z: "400 * a < 146097 * z + 146097" unfolding z_def using div_hi[of 146097 "400 * a"] by simp
  have "146097 * u - 146796 \<le> 400 * daysBeforeYear u"
    by (rule daysBeforeYear_lower)
  moreover have "z = u - 3" by (simp add: u_def)
  ultimately have "a < daysBeforeYear u"
    using z by linarith
  then show ?thesis
    unfolding yearOfDay_def Let_def z_def u_def by (auto simp: algebra_simps)
qed

lemma div_succ: 
  assumes k: "0 < (k::int)"
  shows "(z + 1) div k = z div k + (if (z + 1) mod k = 0 then 1 else 0)"
proof -
  have e: "z = k * (z div k) + z mod k" by simp
  have b: "0 \<le> z mod k" "z mod k < k" using k by simp_all
  show ?thesis
  proof (cases "z mod k + 1 = k")
    case True
    have m: "k * (z div k) + z mod k = z" by (rule mult_div_mod_eq)
    have "z + 1 = k * (z div k) + k" using m True by linarith
    then have eq: "z + 1 = k * (z div k + 1) + 0" by (simp add: distrib_left)
    have "(z + 1) div k = z div k + 1"
      by (rule int_div_pos_eq[OF eq]) (use k in simp_all)
    moreover have "(z + 1) mod k = 0"
      by (rule int_mod_pos_eq[OF eq]) (use k in simp_all)
    ultimately show ?thesis by simp
  next
    case False
    with b have lt: "z mod k + 1 < k" by linarith
    have eq: "z + 1 = k * (z div k) + (z mod k + 1)" by simp
    have "(z + 1) div k = z div k"
      by (rule int_div_pos_eq[OF eq]) (use b lt in simp_all)
    moreover have "(z + 1) mod k = z mod k + 1"
      by (rule int_mod_pos_eq[OF eq]) (use b lt in simp_all)
    ultimately show ?thesis using b by simp
  qed
qed


lemma mod0_dvd: "(a::int) dvd b \<Longrightarrow> y mod b = 0 \<Longrightarrow> y mod a = 0"
  using dvd_trans by (auto simp: mod_eq_0_iff_dvd)

lemma daysBeforeYear_Suc:
  "daysBeforeYear (y + 1) = daysBeforeYear y + (if isLeap y then 366 else 365)"
proof -
  define w where "w = y - 1"
  define d4 where "d4 = (w + 1) div 4"
  define d100 where "d100 = (w + 1) div 100"
  define d400 where "d400 = (w + 1) div 400"
  define q4 where "q4 = w div 4"
  define q100 where "q100 = w div 100"
  define q400 where "q400 = w div 400"
  define p4 where "p4 \<longleftrightarrow> y mod 4 = 0"
  define p100 where "p100 \<longleftrightarrow> y mod 100 = 0"
  define p400 where "p400 \<longleftrightarrow> y mod 400 = 0"
  have y: "y = w + 1" by (simp add: w_def)
  have m1: "p400 \<Longrightarrow> p100" unfolding p400_def p100_def
    by (rule mod0_dvd[of 100 400]) simp_all
  have m2: "p100 \<Longrightarrow> p4" unfolding p100_def p4_def
    by (rule mod0_dvd[of 4 100]) simp_all
  have e4: "d4 = q4 + (if p4 then 1 else 0)"
    unfolding y d4_def q4_def p4_def by (rule div_succ) simp
  have e100: "d100 = q100 + (if p100 then 1 else 0)"
    unfolding y d100_def q100_def p100_def by (rule div_succ) simp
  have e400: "d400 = q400 + (if p400 then 1 else 0)"
    unfolding y d400_def q400_def p400_def by (rule div_succ) simp
  have "y + 1 - 1 = w + 1" by (simp add: y)
  then have a: "daysBeforeYear (y + 1) = 365 * (w + 1) + d4 - d100 + d400"
    unfolding daysBeforeYear_def d4_def d100_def d400_def by (simp only:)
  have "y - 1 = w" by (simp add: w_def)
  then have b: "daysBeforeYear y = 365 * w + q4 - q100 + q400"
    unfolding daysBeforeYear_def q4_def q100_def q400_def by (simp only:)
  have l: "isLeap y \<longleftrightarrow> p4 \<and> (\<not> p100 \<or> p400)"
    unfolding isLeap_def p4_def p100_def p400_def by (rule refl)
  show ?thesis
    unfolding a b e4 e100 e400 l using m1 m2
    by (cases p4; cases p100; cases p400; simp)
qed

lemma yday_bounds:
  "0 \<le> a - daysBeforeYear (yearOfDay a) \<and>
   a - daysBeforeYear (yearOfDay a) < (if isLeap (yearOfDay a) then 366 else 365)"
  using yearOfDay_lower[of a] yearOfDay_upper[of a] daysBeforeYear_Suc[of "yearOfDay a"]
  by (simp split: if_splits)

lemma daysBefore_simps:
  "daysBefore leap 0 = 0" "daysBefore leap 1 = 31"
  "daysBefore leap 2 = (if leap then 60 else 59)" "daysBefore leap 3 = (if leap then 91 else 90)"
  "daysBefore leap 4 = (if leap then 121 else 120)" "daysBefore leap 5 = (if leap then 152 else 151)"
  "daysBefore leap 6 = (if leap then 182 else 181)" "daysBefore leap 7 = (if leap then 213 else 212)"
  "daysBefore leap 8 = (if leap then 244 else 243)" "daysBefore leap 9 = (if leap then 274 else 273)"
  "daysBefore leap 10 = (if leap then 305 else 304)" "daysBefore leap 11 = (if leap then 335 else 334)"
  "daysBefore leap 12 = (if leap then 366 else 365)"
  by (simp_all add: daysBefore_def)


lemma monthOfYday_range: "0 \<le> monthOfYday leap yd \<and> monthOfYday leap yd \<le> 11"
  by (simp add: monthOfYday_def)

lemma monthOfYday_bounds:
  assumes "0 \<le> yd" "yd < (if leap then 366 else 365)"
  shows "daysBefore leap (monthOfYday leap yd) \<le> yd \<and>
         yd < daysBefore leap (monthOfYday leap yd + 1)"
  using assms unfolding monthOfYday_def daysBefore_simps
  by (cases leap) (simp_all add: daysBefore_simps)


lemma civilFromDays_valid:
  assumes "civilFromDays n = (y, m, d)"
  shows "1 \<le> m \<and> m \<le> 12 \<and> 1 \<le> d \<and> d \<le> daysIn m y"
proof -
  define a where "a = n + 719162"
  define yd where "yd = a - daysBeforeYear (yearOfDay a)"
  define i where "i = monthOfYday (isLeap (yearOfDay a)) yd"
  have cf: "civilFromDays n = (yearOfDay a, i + 1, yd - daysBefore (isLeap (yearOfDay a)) i + 1)"
    by (simp add: civilFromDays_def Let_def a_def yd_def i_def)
  have y: "y = yearOfDay a" and m: "m = i + 1"
    and d0: "d = yd - daysBefore (isLeap (yearOfDay a)) i + 1"
    using assms unfolding cf by auto
  have d: "d = yd - daysBefore (isLeap y) i + 1"
    using d0 unfolding y .
  have yb: "0 \<le> yd" "yd < (if isLeap y then 366 else 365)"
    using yday_bounds[of a] by (simp_all add: yd_def y)
  have ir: "0 \<le> i" "i \<le> 11"
    using monthOfYday_range[of "isLeap y" yd] by (simp_all add: i_def y)
  have mb: "daysBefore (isLeap y) i \<le> yd" "yd < daysBefore (isLeap y) (i + 1)"
    using monthOfYday_bounds[OF yb] by (simp_all add: i_def y)
  have di: "daysIn m y = daysBefore (isLeap y) (i + 1) - daysBefore (isLeap y) i"
    by (simp add: daysIn_def m)
  show ?thesis using ir mb di unfolding d m by linarith
qed


















lemma lookup_fixed: "tx l = [] \<Longrightarrow> lookup l sec = (zone0 l, alpha, omega)"
  by (simp add: lookup_def)


lemma zone_adjust_fixed:
  "(if off \<noteq> 0
    then (let utc = unix - off in if utc < a \<or> b \<le> utc then unix - off else unix - off)
    else unix) = unix - (off::int)"
  by (simp add: Let_def)

lemma Date_fixed:
  assumes "tx l = []"
  shows "Date year month day hour minute sec nsec l =
     \<lparr>unixNano = (daysSinceEpoch year month day * 86400 + hour * 3600 + minute * 60 + sec
                   + nsec div 1000000000 - zone0 l) * 1000000000 + nsec mod 1000000000,
      location = l\<rparr>"
proof -
  define unix where "unix = daysSinceEpoch year month day * 86400 + hour * 3600 + minute * 60
      + sec + nsec div 1000000000"
  define frac where "frac = nsec mod 1000000000"
  have "Date year month day hour minute sec nsec l =
      \<lparr>unixNano = (if zone0 l \<noteq> 0
          then (let utc = unix - zone0 l in
                if utc < alpha \<or> omega \<le> utc then unix - zone0 l else unix - zone0 l)
          else unix) * 1000000000 + frac, location = l\<rparr>"
    unfolding Date_def unix_def[symmetric] frac_def[symmetric]
    by (simp only: lookup_fixed[OF assms] Let_def split_conv fst_conv)
  then show ?thesis
    unfolding zone_adjust_fixed unix_def frac_def .
qed


section \<open>Properties of the recurrence calculator\<close>

lemma LoadLocation_default:
  "LoadLocation db (if tz = [] then ''UTC'' else tz) = LoadLocation db tz"
  by (simp add: LoadLocation_def)

lemma toUTC_In: "toUTC (In t l) = toUTC t"
  by (simp add: toUTC_def In_def)

lemma unixNano_simps:
  "unixNano (toUTC t) = unixNano t" "unixNano (In t l) = unixNano t"
  "unixNano (Add t d) = unixNano t + d" "location (In t l) = l" "location (Add t d) = location t"
  by (simp_all add: toUTC_def In_def Add_def)

lemma calculateDailyNextRun_unfold:
  assumes zone: "LoadLocation db tz = Some l"
  shows "calculateDailyNextRun db timeStr tz nowUTC =
     (case ParseInLocation_date_clock (DateOf (In nowUTC l)) timeStr l of
        Inl e \<Rightarrow> Inl e
      | Inr target \<Rightarrow>
          Inr (toUTC (if unixNano target < unixNano nowUTC
                      then Add target (24 * Hour) else target)))"
  by (simp add: calculateDailyNextRun_def ConvertFromUTC_def ConvertToUTC_def
      LoadLocation_default zone Let_def Format_date_def Before_def toUTC_In unixNano_simps
      split: sum.splits)

lemma ParseInLocation_date_clock_ok:
  assumes "civilFromDays n = (year, month, day)" "0 \<le> year" "year \<le> 9999"
    and "parseClock timeStr = Some (hh, mm)"
  shows "ParseInLocation_date_clock (civilFromDays n) timeStr l
           = Inr (Date year month day hh mm 0 0 l)"
  using assms civilFromDays_valid[OF assms(1)]
  by (simp add: ParseInLocation_date_clock_def)



lemma daysSinceEpoch_next_day:
  "daysSinceEpoch y m (d + 1) = daysSinceEpoch y m d + 1"
  by (simp add: daysSinceEpoch_def)

lemma Add_day_fixed:
  assumes "tx l = []"
  shows "Add (Date y m d hh mm 0 0 l) (24 * Hour) = Date y m (d + 1) hh mm 0 0 l"
proof -
  define n where "n = daysSinceEpoch y m d"
  have a: "daysSinceEpoch y m (d + 1) = n + 1"
    by (simp add: daysSinceEpoch_next_day n_def)
  show ?thesis
    unfolding Date_fixed[OF assms] a n_def[symmetric]
    by (simp add: Add_def Hour_def algebra_simps)
qed





















section \<open>The daily recurrence\<close>

text \<open>
  Claim C2, as amended. Take a daily schedule with the time HH:MM in a zone Z, and let
  today be the date of now in Z (of a year from 0 to 9999, the years the date text
  holds). If now is strictly before today's HH:MM in Z, the next run is that instant in
  UTC. If now is strictly after it, the next run is that instant plus exactly 24 hours;
  in a zone with a fixed offset this is the following day's HH:MM in Z. The statement is
  silent on a now that is equal to today's HH:MM to the nanosecond.
\<close>

theorem calculateDailyNextRun_today_or_24h_later:
  assumes zone: "LoadLocation db userTimezone = Some l"
    and clk: "parseClock timeStr = Some (hh, mm)"
    and today: "DateOf (In nowUTC l) = (year, month, day)"
    and yr: "0 \<le> year \<and> year \<le> 9999"
  shows "(unixNano nowUTC < unixNano (Date year month day hh mm 0 0 l) \<longrightarrow>
            calculateDailyNextRun db timeStr userTimezone nowUTC
              = Inr (toUTC (Date year month day hh mm 0 0 l))) \<and>
         (unixNano (Date year month day hh mm 0 0 l) < unixNano nowUTC \<longrightarrow>
            calculateDailyNextRun db timeStr userTimezone nowUTC
              = Inr (toUTC (Add (Date year month day hh mm 0 0 l) (24 * Hour)))) \<and>
         (tx l = [] \<longrightarrow>
            Add (Date year month day hh mm 0 0 l) (24 * Hour)
              = Date year month (day + 1) hh mm 0 0 l)"
proof -
  from today have cf: "civilFromDays (localSec (In nowUTC l) div 86400) = (year, month, day)"
    by (simp add: DateOf_def)
  have p: "ParseInLocation_date_clock (DateOf (In nowUTC l)) timeStr l
      = Inr (Date year month day hh mm 0 0 l)"
    unfolding DateOf_def
    by (rule ParseInLocation_date_clock_ok[OF cf _ _ clk]) (use yr in simp_all)
  show ?thesis
    unfolding calculateDailyNextRun_unfold[OF zone] p
    by (simp add: Add_day_fixed)
qed

text \<open>
  An example: 17:00 in India, asked at 11:25 UTC and at 12:05 UTC
  on 2025-01-15, gives 11:30 UTC of that day and of the next.
\<close>

theorem calculateDailyNextRun_today_or_24h_later_witness:
  "calculateDailyNextRun tzdata ''17:00'' ''Asia/Kolkata''
     \<lparr>unixNano = 1736940300000000000, location = UTC\<rparr>
     = Inr (toUTC (Date 2025 1 15 17 0 0 0 Asia_Kolkata)) \<and>
   calculateDailyNextRun tzdata ''17:00'' ''Asia/Kolkata''
     \<lparr>unixNano = 1736942700000000000, location = UTC\<rparr>
     = Inr (toUTC (Date 2025 1 16 17 0 0 0 Asia_Kolkata)) \<and>
   toUTC (Date 2025 1 15 17 0 0 0 Asia_Kolkata)
     = \<lparr>unixNano = 1736940600000000000, location = UTC\<rparr> \<and>
   toUTC (Date 2025 1 16 17 0 0 0 Asia_Kolkata)
     = \<lparr>unixNano = 1737027000000000000, location = UTC\<rparr>"
proof -
  let ?early = "\<lparr>unixNano = 1736940300000000000, location = UTC\<rparr>"
  let ?late = "\<lparr>unixNano = 1736942700000000000, location = UTC\<rparr>"
  have zone: "LoadLocation tzdata ''Asia/Kolkata'' = Some Asia_Kolkata" by code_simp
  have clk: "parseClock ''17:00'' = Some (17, 0)" by code_simp
  have t1: "DateOf (In ?early Asia_Kolkata) = (2025, 1, 15)" by code_simp
  have t2: "DateOf (In ?late Asia_Kolkata) = (2025, 1, 15)" by code_simp
  have yr: "(0::int) \<le> 2025 \<and> (2025::int) \<le> 9999" by simp
  have fixed: "tx Asia_Kolkata = []" by (simp add: Asia_Kolkata_def)
  have v1: "Date 2025 1 15 17 0 0 0 Asia_Kolkata
      = \<lparr>unixNano = 1736940600000000000, location = Asia_Kolkata\<rparr>" by code_simp
  have v2: "Date 2025 1 16 17 0 0 0 Asia_Kolkata
      = \<lparr>unixNano = 1737027000000000000, location = Asia_Kolkata\<rparr>" by code_simp
  have b1: "unixNano ?early < unixNano (Date 2025 1 15 17 0 0 0 Asia_Kolkata)"
    unfolding v1 by simp
  have b2: "unixNano (Date 2025 1 15 17 0 0 0 Asia_Kolkata) < unixNano ?late"
    unfolding v1 by simp
  from calculateDailyNextRun_today_or_24h_later[OF zone clk t1 yr] b1
  have r1: "calculateDailyNextRun tzdata ''17:00'' ''Asia/Kolkata'' ?early
     = Inr (toUTC (Date 2025 1 15 17 0 0 0 Asia_Kolkata))"
    by blast
  from calculateDailyNextRun_today_or_24h_later[OF zone clk t2 yr] b2 fixed
  have r2: "calculateDailyNextRun tzdata ''17:00'' ''Asia/Kolkata'' ?late
     = Inr (toUTC (Date 2025 1 16 17 0 0 0 Asia_Kolkata))"
    by simp
  have u1: "toUTC (Date 2025 1 15 17 0 0 0 Asia_Kolkata)
     = \<lparr>unixNano = 1736940600000000000, location = UTC\<rparr>"
    unfolding v1 by (simp add: toUTC_def)
  have u2: "toUTC (Date 2025 1 16 17 0 0 0 Asia_Kolkata)
     = \<lparr>unixNano = 1737027000000000000, location = UTC\<rparr>"
    unfolding v2 by (simp add: toUTC_def)
  from r1 r2 u1 u2 show ?thesis by blast
qed

text \<open>
  Claim C2 as stated fails in two places. At the boundary, where now is today's 09:00
  exactly, the next run is today's 09:00 and not the following day's. And where the zone
  changes its offset within the 24 hours: 12:00 in New York, asked at 13:00 local time on
  2024-03-09, gives 13:00 local time on 2024-03-10, an hour after that day's 12:00.
\<close>

theorem calculateDailyNextRun_not_following_day:
  "In \<lparr>unixNano = 1705309200000000000, location = UTC\<rparr> UTC = Date 2024 1 15 9 0 0 0 UTC \<and>
   calculateDailyNextRun tzdata ''09:00'' ''UTC''
     \<lparr>unixNano = 1705309200000000000, location = UTC\<rparr>
     = Inr (toUTC (Date 2024 1 15 9 0 0 0 UTC)) \<and>
   toUTC (Date 2024 1 15 9 0 0 0 UTC) \<noteq> toUTC (Date 2024 1 16 9 0 0 0 UTC) \<and>
   DateOf (In \<lparr>unixNano = 1710007200000000000, location = UTC\<rparr> America_New_York)
     = (2024, 3, 9) \<and>
   unixNano (Date 2024 3 9 12 0 0 0 America_New_York) < 1710007200000000000 \<and>
   calculateDailyNextRun tzdata ''12:00'' ''America/New_York''
     \<lparr>unixNano = 1710007200000000000, location = UTC\<rparr>
     = Inr (toUTC (Date 2024 3 10 13 0 0 0 America_New_York)) \<and>
   toUTC (Date 2024 3 10 13 0 0 0 America_New_York)
     \<noteq> toUTC (Date 2024 3 10 12 0 0 0 America_New_York)"
proof -
  have a: "In \<lparr>unixNano = 1705309200000000000, location = UTC\<rparr> UTC
      = Date 2024 1 15 9 0 0 0 UTC" by code_simp
  have b: "calculateDailyNextRun tzdata ''09:00'' ''UTC''
     \<lparr>unixNano = 1705309200000000000, location = UTC\<rparr>
     = Inr (toUTC (Date 2024 1 15 9 0 0 0 UTC))" by code_simp
  have c: "toUTC (Date 2024 1 15 9 0 0 0 UTC) \<noteq> toUTC (Date 2024 1 16 9 0 0 0 UTC)"
    by code_simp
  have d: "DateOf (In \<lparr>unixNano = 1710007200000000000, location = UTC\<rparr> America_New_York)
     = (2024, 3, 9)" by code_simp
  have e: "unixNano (Date 2024 3 9 12 0 0 0 America_New_York) < 1710007200000000000"
    by code_simp
  have f: "calculateDailyNextRun tzdata ''12:00'' ''America/New_York''
     \<lparr>unixNano = 1710007200000000000, location = UTC\<rparr>
     = Inr (toUTC (Date 2024 3 10 13 0 0 0 America_New_York))" by code_simp
  have g: "toUTC (Date 2024 3 10 13 0 0 0 America_New_York)
     \<noteq> toUTC (Date 2024 3 10 12 0 0 0 America_New_York)" by code_simp
  from a b c d e f g show ?thesis by blast
qed

section \<open>The next run and the instant of its calculation\<close>




end
